theory Spec2Isabelle
  imports Complex_Main
begin

section \<open>Numeric helpers\<close>

text \<open>
  JavaScript numbers are modelled as exact reals; turn counters are integers and
  buffer capacities are naturals. \<^verbatim>\<open>lib/gating.ts\<close>: \<^verbatim>\<open>const EPS = 1e-8\<close>.
\<close>

definition EPS :: real where
  "EPS = 1 / 10 ^ 8"

definition lerp :: "real \<Rightarrow> real \<Rightarrow> real \<Rightarrow> real" where
  "lerp a b t = a + (b - a) * t"

definition clamp :: "real \<Rightarrow> real \<Rightarrow> real \<Rightarrow> real" where
  "clamp a b x = max a (min b x)"

definition clamp01 :: "real \<Rightarrow> real" where
  "clamp01 x = clamp 0 1 x"

text \<open>\<^verbatim>\<open>Math.round\<close> rounds to the nearest integer, halves towards plus infinity.\<close>

definition js_round :: "real \<Rightarrow> real" where
  "js_round x = of_int \<lfloor>x + 1 / 2\<rfloor>"

text \<open>
  \<^verbatim>\<open>xs.slice(-n)\<close>: the last \<open>n\<close> elements (all of them when there are fewer); for
  \<open>n = 0\<close> the start index \<open>-0\<close> is 0 and the result is the whole array.
\<close>

definition slice_last :: "nat \<Rightarrow> 'a list \<Rightarrow> 'a list" where
  "slice_last n xs = (if n = 0 then xs else drop (length xs - n) xs)"

text \<open>A \<^verbatim>\<open>string | null\<close> is truthy when it is neither null nor the empty string.\<close>

definition truthy :: "string option \<Rightarrow> bool" where
  "truthy s = (case s of None \<Rightarrow> False | Some t \<Rightarrow> t \<noteq> [])"

section \<open>Data model (\<^verbatim>\<open>lib/types.ts\<close>)\<close>

text \<open>
  The optional \<open>bytes\<close> of a token are left out: nothing reads them. Fields whose names
  clash between records or with Isabelle keywords are renamed: the fragment's \<open>id\<close>,
  \<open>turn\<close>, \<open>dim\<close>, \<open>focus\<close> and \<open>text\<close> carry the prefix \<open>frag_\<close>, the fields of the
  argument of \<^verbatim>\<open>upsertFragment\<close> the prefix \<open>in_\<close>, and the probe's \<open>next\<close> is
  \<open>next_step\<close>.
\<close>

record TopTokenLogprob =
  token :: string
  logprob :: real

record TokenLogprob = TopTokenLogprob +
  top_logprobs :: "TopTokenLogprob list option"

record RunningStats =
  mean :: real
  var :: real

record GateState =
  S :: RunningStats
  H :: RunningStats
  last_state :: real
  meta_cap_stage :: nat
  meta_cap_last_change_turn :: int
  last_dims :: "string list"
  last_focus :: "string list"
  last_states :: "real list"
  last_pulse_turn :: int

record MemoryFragment =
  frag_id :: string
  key :: string
  frag_turn :: int
  frag_dim :: "string option"
  frag_focus :: "string option"
  frag_text :: string
  salience :: real
  last_used_turn :: int

text \<open>The argument of \<^verbatim>\<open>upsertFragment\<close>: a fragment without id and last-used turn.\<close>

record IncomingFragment =
  in_key :: string
  in_turn :: int
  in_dim :: "string option"
  in_focus :: "string option"
  in_text :: string
  in_salience :: real

record ProbeFields =
  raw :: string
  dim :: "string option"
  focus :: "string option"
  next_step :: "string option"
  why :: "string option"

section \<open>Gating (\<^verbatim>\<open>lib/gating.ts\<close>)\<close>

definition createInitialGateState :: GateState where
  "createInitialGateState =
     \<lparr> S = \<lparr> mean = 2, var = 1 \<rparr>,
       H = \<lparr> mean = 1, var = 1 \<rparr>,
       last_state = 3 / 10,
       meta_cap_stage = 0,
       meta_cap_last_change_turn = - 999,
       last_dims = [],
       last_focus = [],
       last_states = [],
       last_pulse_turn = - 999 \<rparr>"

definition emaUpdate :: "RunningStats \<Rightarrow> real \<Rightarrow> real \<Rightarrow> RunningStats" where
  "emaUpdate stats x eta =
     (let mean_v = (1 - eta) * mean stats + eta * x;
          diff = x - mean_v;
          var_v = (1 - eta) * var stats + eta * diff * diff
      in \<lparr> mean = mean_v, var = max var_v EPS \<rparr>)"

definition zScore :: "RunningStats \<Rightarrow> real \<Rightarrow> real" where
  "zScore stats x = (x - mean stats) / sqrt (var stats + EPS)"

definition sigmoid :: "real \<Rightarrow> real" where
  "sigmoid x = 1 / (1 + exp (- x))"

text \<open>
  \<^verbatim>\<open>sliceFirstLine\<close>: the loop pushes a token, then stops once \<open>maxTokens\<close> tokens are out
  or the token just pushed contains a newline. The third argument is the array \<open>out\<close>.
\<close>

fun sliceFirstLine :: "TokenLogprob list \<Rightarrow> nat \<Rightarrow> TokenLogprob list \<Rightarrow> TokenLogprob list" where
  "sliceFirstLine [] maxTokens out = out"
| "sliceFirstLine (t # ts) maxTokens out =
     (let out' = out @ [t]
      in if length out' \<ge> maxTokens then out'
         else if CHR 0x0A \<in> set (token t) then out'
         else sliceFirstLine ts maxTokens out')"

definition meanSurprisal :: "TokenLogprob list \<Rightarrow> real option" where
  "meanSurprisal tokens =
     (if tokens = [] then None
      else let vals = map (\<lambda>t. - logprob t) tokens;
               sum_v = foldl (+) 0 vals
           in Some (sum_v / real (length vals)))"

text \<open>The body of the loop of \<^verbatim>\<open>approxEntropy\<close> for one token that carries alternatives.\<close>

definition tokenEntropy :: "TopTokenLogprob list \<Rightarrow> real" where
  "tokenEntropy tops =
     (let ps = map (\<lambda>x. exp (logprob x)) tops;
          sumP = foldl (+) 0 ps;
          r = max 0 (1 - sumP);
          H1 = foldl (\<lambda>Hacc p. if p > 0 then Hacc - p * ln (p + EPS) else Hacc) 0 ps
      in if r > 0 then H1 - r * ln (r + EPS) else H1)"

fun entropyLoop :: "TokenLogprob list \<Rightarrow> real list \<Rightarrow> real list" where
  "entropyLoop [] Hs = Hs"
| "entropyLoop (t # ts) Hs =
     (case top_logprobs t of
        None \<Rightarrow> entropyLoop ts Hs
      | Some tops \<Rightarrow>
          if tops = [] then entropyLoop ts Hs
          else entropyLoop ts (Hs @ [tokenEntropy tops]))"

definition approxEntropy :: "TokenLogprob list \<Rightarrow> real option" where
  "approxEntropy tokens =
     (let Hs = entropyLoop tokens []
      in if Hs = [] then None
         else Some (foldl (+) 0 Hs / real (length Hs)))"

definition hysteresisUpdate :: "real \<Rightarrow> real \<Rightarrow> real \<Rightarrow> real \<Rightarrow> real \<Rightarrow> real" where
  "hysteresisUpdate prev raw_v up down inertia =
     (let target = (if raw_v \<ge> up \<or> raw_v \<le> down then raw_v else prev);
          next_v = inertia * prev + (1 - inertia) * target
      in clamp01 next_v)"

text \<open>\<^verbatim>\<open>while (xs.length > maxLen) xs.shift()\<close>\<close>

function shiftWhile :: "nat \<Rightarrow> 'a list \<Rightarrow> 'a list" where
  "shiftWhile maxLen xs = (if length xs > maxLen then shiftWhile maxLen (tl xs) else xs)"
  by pat_completeness auto
termination
  by (relation "measure (\<lambda>(maxLen, xs). length xs)") auto

declare shiftWhile.simps [simp del]

definition updateStagnationBuffers ::
  "GateState \<Rightarrow> string option \<Rightarrow> string option \<Rightarrow> real \<Rightarrow> nat \<Rightarrow> GateState" where
  "updateStagnationBuffers gs d f st maxLen =
     (let dims1 = (if truthy d then last_dims gs @ [the d] else last_dims gs);
          focus1 = (if truthy f then last_focus gs @ [the f] else last_focus gs);
          states1 = last_states gs @ [st]
      in gs \<lparr> last_dims := shiftWhile maxLen dims1,
              last_focus := shiftWhile maxLen focus1,
              last_states := shiftWhile maxLen states1 \<rparr>)"

definition variance :: "real list \<Rightarrow> real" where
  "variance xs =
     (if length xs \<le> 1 then 0
      else let mean_v = foldl (+) 0 xs / real (length xs)
           in foldl (\<lambda>acc x. acc + (x - mean_v) ^ 2) 0 xs / real (length xs - 1))"

definition lowDiversity :: "'a list \<Rightarrow> nat \<Rightarrow> bool" where
  "lowDiversity xs uniqMax = (card (set xs) \<le> uniqMax)"

definition shouldExplorationPulse :: "GateState \<Rightarrow> bool" where
  "shouldExplorationPulse gs =
     (if length (last_states gs) < 8 then False
      else if length (last_dims gs) < 8 then False
      else if length (last_focus gs) < 8 then False
      else let v = variance (slice_last 8 (last_states gs));
               flat = (v < 2 / 1000);
               dimFlat = lowDiversity (slice_last 8 (last_dims gs)) 1;
               focusLowDiv = lowDiversity (slice_last 8 (last_focus gs)) 2
           in flat \<and> dimFlat \<and> focusLowDiv)"

section \<open>The turn handler (\<^verbatim>\<open>POST\<close>) and its helpers\<close>

text \<open>In the sources the handler follows \<^verbatim>\<open>getSession\<close> in \<^verbatim>\<open>lib/sessionStore.ts\<close>.\<close>

definition smoothstep :: "real \<Rightarrow> real \<Rightarrow> real \<Rightarrow> real" where
  "smoothstep edge0 edge1 x =
     (let t = clamp01 ((x - edge0) / (edge1 - edge0))
      in t * t * (3 - 2 * t))"

text \<open>\<^verbatim>\<open>Math.pow\<close> on a base in \<open>[0,1]\<close> and a positive exponent is the real power.\<close>

definition powEase :: "real \<Rightarrow> real \<Rightarrow> real" where
  "powEase x gamma = clamp01 x powr gamma"

definition metaCapValue :: "nat \<Rightarrow> real option" where
  "metaCapValue stage =
     (if stage = 0 then Some 0.55
      else if stage = 1 then Some 0.65
      else None)"

definition recentMetaShare :: "GateState \<Rightarrow> nat \<Rightarrow> real option" where
  "recentMetaShare gs window =
     (let dims = slice_last window (last_dims gs)
      in if length dims < window then None
         else let meta = length (filter (\<lambda>d. d = ''META'') dims)
              in Some (real meta / real (length dims)))"

text \<open>The result is the mutated gate state, then the fields \<open>changed\<close> and \<open>metaShare\<close>.\<close>

definition maybeRelaxMetaCapStage :: "GateState \<Rightarrow> int \<Rightarrow> GateState \<times> bool \<times> real option" where
  "maybeRelaxMetaCapStage gs turn =
     (case recentMetaShare gs 12 of
        None \<Rightarrow> (gs, False, None)
      | Some share \<Rightarrow>
          let stage0MinInterval = 12;
              stage1MinInterval = 18;
              minInterval = (if meta_cap_stage gs = 1 then stage1MinInterval else stage0MinInterval)
          in if turn - meta_cap_last_change_turn gs < minInterval then (gs, False, Some share)
             else if meta_cap_stage gs = 0 \<and> share \<le> 0.25
               then (gs \<lparr> meta_cap_stage := 1, meta_cap_last_change_turn := turn \<rparr>, True, Some share)
             else if meta_cap_stage gs = 1 \<and> share \<le> 0.17
               then (gs \<lparr> meta_cap_stage := 2, meta_cap_last_change_turn := turn \<rparr>, True, Some share)
             else (gs, False, Some share))"

text \<open>The result is the field \<open>raw\<close> and the field \<open>metaCap\<close>; the notes are not modelled.\<close>

definition applyDimWeight :: "real \<Rightarrow> string option \<Rightarrow> GateState \<Rightarrow> real \<times> real option" where
  "applyDimWeight rawState d gs =
     (let s1 = (if d = Some ''RISK''
                then let base = clamp01 rawState;
                         boost = lerp 0.22 0.08 base
                     in clamp01 (rawState + boost)
                else rawState);
          cap = (if d = Some ''META'' then metaCapValue (meta_cap_stage gs) else None)
      in case cap of
           None \<Rightarrow> (s1, cap)
         | Some c \<Rightarrow> (min s1 c, cap))"

text \<open>
  What the completion service answers during the exploration pulse. The first request
  either throws or yields a text, of which the model keeps the candidates that
  \<^verbatim>\<open>parseCandidates\<close> returns; the verification request, made only when there are at
  least two candidates, either throws or yields a text, of which the model keeps the
  result of \<^verbatim>\<open>parsePick\<close> (1, 2, 3 or null).
\<close>

datatype verify_reply = VerifyThrows | VerifyPick "nat option"

datatype explore_reply = ExploreThrows | ExploreCands "ProbeFields list" verify_reply

text \<open>The candidate the pulse selects, if it triggers.\<close>

definition pulseSelect :: "explore_reply \<Rightarrow> ProbeFields option" where
  "pulseSelect r =
     (case r of
        ExploreThrows \<Rightarrow> None
      | ExploreCands cands v \<Rightarrow>
          if length cands \<ge> 2 then
            (case v of
               VerifyThrows \<Rightarrow> None
             | VerifyPick p \<Rightarrow>
                 let pick = (case p of None \<Rightarrow> 1 | Some n \<Rightarrow> n);
                     idx = max 1 (min (length cands) pick) - 1
                 in Some (cands ! idx))
          else None)"

text \<open>
  The inline baseline update of \<^verbatim>\<open>POST\<close>, written there once for the surprisal and once
  for the entropy: the z-score against the old baseline, then the new baseline.
\<close>

definition ETA :: real where
  "ETA = 0.06"

definition inlineZ :: "RunningStats \<Rightarrow> real \<Rightarrow> real" where
  "inlineZ stats x = (x - mean stats) / sqrt (var stats + 1 / 10 ^ 8)"

definition inlineBaseline :: "RunningStats \<Rightarrow> real \<Rightarrow> RunningStats" where
  "inlineBaseline stats x =
     (let mean_v = (1 - ETA) * mean stats + ETA * x;
          d = x - mean_v
      in \<lparr> mean = mean_v, var = (1 - ETA) * var stats + ETA * d * d \<rparr>)"

text \<open>What one turn receives from outside: the probe response and the pulse replies.\<close>

record TurnInput =
  probeLogprobs :: "TokenLogprob list"
  originalProbe :: ProbeFields
  explore :: explore_reply

record TurnResult =
  gate_after :: GateState
  state :: real
  score :: "real option"
  pulse_attempted :: bool
  pulse_triggered :: bool
  effectiveProbe :: ProbeFields

text \<open>
  \<^verbatim>\<open>POST\<close> from the probe response to the META cap relaxation, that is everything that
  reads or writes the gate state, in the order of the source and cut into its phases.

  Metrics and score: the baselines are updated for the signals that are available; the
  result is the gate state, \<open>score\<close> and \<open>rawStateFromScore\<close>.
\<close>

definition scoreStage :: "GateState \<Rightarrow> real option \<Rightarrow> real option \<Rightarrow> GateState \<times> real option \<times> real" where
  "scoreStage gs0 Sv Hv =
     (let zS = map_option (inlineZ (S gs0)) Sv;
          gs1 = (case Sv of None \<Rightarrow> gs0 | Some x \<Rightarrow> gs0 \<lparr> S := inlineBaseline (S gs0) x \<rparr>);
          zH = map_option (inlineZ (H gs1)) Hv;
          gs2 = (case Hv of None \<Rightarrow> gs1 | Some x \<Rightarrow> gs1 \<lparr> H := inlineBaseline (H gs1) x \<rparr>);
          score_v = (if zS \<noteq> None \<or> zH \<noteq> None
                     then Some (0.7 * (case zS of None \<Rightarrow> 0 | Some z \<Rightarrow> z)
                              + 0.3 * (case zH of None \<Rightarrow> 0 | Some z \<Rightarrow> z))
                     else None);
          rawStateFromScore = (case score_v of
                                 None \<Rightarrow> last_state gs2
                               | Some sc \<Rightarrow> 1 / (1 + exp (- sc / 1.2)))
      in (gs2, score_v, rawStateFromScore))"

text \<open>The guard of the exploration pulse: whether the request for candidates is made.\<close>

definition pulseGuard :: "GateState \<Rightarrow> int \<Rightarrow> bool" where
  "pulseGuard gs turn =
     (let stagnationDetected = shouldExplorationPulse gs;
          repeatingDim = (if last_dims gs \<noteq> [] then Some (last (last_dims gs)) else None);
          cooldownOk = (turn - last_pulse_turn gs \<ge> 6);
          notRiskLoop = (repeatingDim \<noteq> Some ''RISK'');
          boredomish = (last_state gs < 0.6)
      in stagnationDetected \<and> cooldownOk \<and> notRiskLoop \<and> boredomish)"

text \<open>
  Dimension weight, hysteresis, stagnation buffers and META cap relaxation, with the
  effective probe; the result is the gate state and the resolved state.
\<close>

definition resolveStage :: "GateState \<Rightarrow> int \<Rightarrow> real \<Rightarrow> ProbeFields \<Rightarrow> GateState \<times> real" where
  "resolveStage gs3 turn rawStateFromScore effective =
     (let dimWeighted = applyDimWeight rawStateFromScore (dim effective) gs3;
          state_v = hysteresisUpdate (last_state gs3) (fst dimWeighted) 0.62 0.48 0.6;
          gs4 = gs3 \<lparr> last_state := state_v \<rparr>;
          gs5 = updateStagnationBuffers gs4 (dim effective) (focus effective) state_v 12;
          gs6 = fst (maybeRelaxMetaCapStage gs5 turn)
      in (gs6, state_v))"

text \<open>\<open>turn\<close> is the session's counter after its increment.\<close>

definition POST_gate :: "GateState \<Rightarrow> int \<Rightarrow> TurnInput \<Rightarrow> TurnResult" where
  "POST_gate gs0 turn inp =
     (let firstLine = sliceFirstLine (probeLogprobs inp) 30 [];
          Sv = meanSurprisal firstLine;
          Hv = approxEntropy firstLine;
          scored = scoreStage gs0 Sv Hv;
          gs2 = fst scored;
          attempted = pulseGuard gs2 turn;
          selected = (if attempted then pulseSelect (explore inp) else None);
          gs3 = (case selected of None \<Rightarrow> gs2 | Some c \<Rightarrow> gs2 \<lparr> last_pulse_turn := turn \<rparr>);
          effective = (case selected of None \<Rightarrow> originalProbe inp | Some c \<Rightarrow> c);
          resolved = resolveStage gs3 turn (snd (snd scored)) effective
      in \<lparr> gate_after = fst resolved, state = snd resolved, score = fst (snd scored),
           pulse_attempted = attempted, pulse_triggered = (selected \<noteq> None),
           effectiveProbe = effective \<rparr>)"

text \<open>
  A session is its gate state and its turn counter. A request either fails before the
  probe response arrives (the counter has been incremented, the gate state is untouched)
  or runs the gate part of \<^verbatim>\<open>POST\<close>.
\<close>

datatype turn_event = ProbeThrows | ProbeReply TurnInput

fun session_step :: "GateState \<times> int \<Rightarrow> turn_event \<Rightarrow> GateState \<times> int" where
  "session_step (gs, turn) ProbeThrows = (gs, turn + 1)"
| "session_step (gs, turn) (ProbeReply inp) = (gate_after (POST_gate gs (turn + 1) inp), turn + 1)"

definition run_session :: "GateState \<times> int \<Rightarrow> turn_event list \<Rightarrow> GateState \<times> int" where
  "run_session s evs = foldl session_step s evs"

text \<open>\<^verbatim>\<open>getSession\<close> for an unknown id.\<close>

definition new_session :: "GateState \<times> int" where
  "new_session = (createInitialGateState, 0)"

section \<open>Gradient budgets (\<^verbatim>\<open>POST\<close>)\<close>

definition ctx_keep_msgs :: "real \<Rightarrow> real" where
  "ctx_keep_msgs st = clamp 4 18 (js_round (lerp 4 18 (powEase st 1.25)))"

definition summary_chars :: "real \<Rightarrow> real" where
  "summary_chars st = js_round (lerp 0 220 (smoothstep 0.22 0.62 st))"

definition attn_items :: "real \<Rightarrow> real" where
  "attn_items st = clamp 0 10 (js_round (lerp 0 10 (smoothstep 0.35 0.85 st)))"

text \<open>\<^verbatim>\<open>topSalience\<close>: the largest salience in the fragment bank, 0 when it is empty.\<close>

definition topSalience :: "MemoryFragment list \<Rightarrow> real" where
  "topSalience frags = (if frags \<noteq> [] then Max (set (map salience frags)) else 0)"

definition frag_items :: "real \<Rightarrow> real \<Rightarrow> real" where
  "frag_items st top_sal =
     (let base = clamp 0 10 (js_round (lerp 0 10 (smoothstep 0.20 0.86 st)))
      in if base = 0 \<and> top_sal > 0.9 then 1 else base)"

definition summary_update_interval :: "real \<Rightarrow> real" where
  "summary_update_interval st = clamp 1 18 (js_round (lerp 18 1 (powEase st 1.4)))"

definition summary_update_max_tokens :: "real \<Rightarrow> real" where
  "summary_update_max_tokens st = clamp 20 120 (js_round (lerp 25 90 (powEase st 1.2)))"

definition max_output_tokens :: "real \<Rightarrow> bool \<Rightarrow> real" where
  "max_output_tokens st pulse =
     (let m = js_round (lerp 60 520 st)
      in if pulse then max m 120 else m)"

definition temperature :: "real \<Rightarrow> real" where
  "temperature st = clamp 0 1.2 (lerp 0.05 0.7 st)"

section \<open>Fragment memory (\<^verbatim>\<open>lib/fragments\<close>)\<close>

text \<open>
  In the sources the module follows the component in \<^verbatim>\<open>components/ChatApp.tsx\<close>.

  \<^verbatim>\<open>upsertFragment\<close>. \<^verbatim>\<open>frags.find\<close> yields the first fragment with the incoming key;
  \<open>mergeInto\<close> rewrites that fragment in place. The fresh id, which the source builds
  from its argument \<open>turn\<close> and \<^verbatim>\<open>Math.random\<close>, is an argument. The result is the array
  afterwards and the fields \<open>added\<close>, \<open>merged\<close> and \<open>id\<close>.
\<close>

fun mergeInto :: "MemoryFragment list \<Rightarrow> IncomingFragment \<Rightarrow> MemoryFragment list" where
  "mergeInto [] inc = []"
| "mergeInto (f # fs) inc =
     (if key f = in_key inc
      then f \<lparr> frag_text := in_text inc,
               frag_dim := in_dim inc,
               frag_focus := in_focus inc,
               frag_turn := in_turn inc,
               salience := clamp 0 1.2 (max (salience f) (in_salience inc) + 0.08) \<rparr> # fs
      else f # mergeInto fs inc)"

definition upsertFragment ::
  "MemoryFragment list \<Rightarrow> IncomingFragment \<Rightarrow> string \<Rightarrow> MemoryFragment list \<times> bool \<times> bool \<times> string" where
  "upsertFragment frags inc fresh_id =
     (case find (\<lambda>f. key f = in_key inc) frags of
        Some existing \<Rightarrow> (mergeInto frags inc, False, True, frag_id existing)
      | None \<Rightarrow>
          (frags @ [\<lparr> frag_id = fresh_id, key = in_key inc, frag_turn = in_turn inc,
                      frag_dim = in_dim inc, frag_focus = in_focus inc, frag_text = in_text inc,
                      salience = in_salience inc, last_used_turn = - 999 \<rparr>],
           True, False, fresh_id))"

text \<open>
  \<^verbatim>\<open>pruneFragments\<close>: filter, sort by salience descending (the sort of an array is
  stable, as \<open>sort_key\<close> is), keep the first \<open>maxKeep\<close>.
\<close>

definition pruneFragments :: "MemoryFragment list \<Rightarrow> int \<Rightarrow> nat \<Rightarrow> MemoryFragment list" where
  "pruneFragments frags turn maxKeep =
     (let kept = filter (\<lambda>f. \<not> (salience f < 0.06 \<and> turn - frag_turn f > 8)) frags;
          sorted_v = sort_key (\<lambda>f. - salience f) kept
      in take maxKeep sorted_v)"

section \<open>Formulas as the specification words them\<close>

text \<open>
  The hysteresis update with a closed sticky band: the target is the previous state
  whenever the raw value lies in \<open>[0.48, 0.62]\<close>, the raw value otherwise.
\<close>

definition hysteresis_spec :: "real \<Rightarrow> real \<Rightarrow> real" where
  "hysteresis_spec prev raw_v =
     clamp01 (0.6 * prev + 0.4 * (if 0.48 \<le> raw_v \<and> raw_v \<le> 0.62 then prev else raw_v))"

text \<open>
  The entropy estimator: a token carries alternatives when its top-k list is present and
  not empty; for such a token \<open>H = - \<Sum> p\<^sub>i ln p\<^sub>i - r ln r\<close> with \<open>p\<^sub>i = exp logprob\<^sub>i\<close> and
  \<open>r = max 0 (1 - \<Sum> p\<^sub>i)\<close>; the estimate is the average of \<open>H\<close> over these tokens, and
  there is none when no token carries alternatives.
\<close>

definition carries_alternatives :: "TokenLogprob \<Rightarrow> bool" where
  "carries_alternatives t = (case top_logprobs t of None \<Rightarrow> False | Some tops \<Rightarrow> tops \<noteq> [])"

definition entropy_term_spec :: "TopTokenLogprob list \<Rightarrow> real" where
  "entropy_term_spec tops =
     (let ps = map (\<lambda>x. exp (logprob x)) tops;
          r = max 0 (1 - sum_list ps)
      in - sum_list (map (\<lambda>p. p * ln p) ps) - r * ln r)"

definition entropy_spec :: "TokenLogprob list \<Rightarrow> real option" where
  "entropy_spec tokens =
     (let carrying = filter carries_alternatives tokens
      in if carrying = [] then None
         else Some (sum_list (map (\<lambda>t. entropy_term_spec (the (top_logprobs t))) carrying)
                    / real (length carrying)))"

text \<open>
  The trigger of the exploration pulse with its first condition read as the specification
  words it, over the buffered turns: at least 8 turns are buffered, that is
  \<open>last_states\<close>, which receives an entry every turn, holds at least 8 entries. The
  variance is written with the divisor \<open>n - 1\<close>; the repeating dimension is the one
  among the last 8 labels.
\<close>

definition variance_spec :: "real list \<Rightarrow> real" where
  "variance_spec xs =
     sum_list (map (\<lambda>x. (x - sum_list xs / real (length xs)) ^ 2) xs) / real (length xs - 1)"

definition pulse_conditions_spec :: "GateState \<Rightarrow> int \<Rightarrow> bool" where
  "pulse_conditions_spec gs turn =
     (8 \<le> length (last_states gs)
      \<and> variance_spec (slice_last 8 (last_states gs)) < 0.002
      \<and> card (set (slice_last 8 (last_dims gs))) \<le> 1
      \<and> card (set (slice_last 8 (last_focus gs))) \<le> 2
      \<and> 6 \<le> turn - last_pulse_turn gs
      \<and> ''RISK'' \<notin> set (slice_last 8 (last_dims gs))
      \<and> last_state gs < 0.6)"


section \<open>Facts about the numeric helpers\<close>

lemma clamp_mono: "x \<le> y \<Longrightarrow> clamp a b x \<le> clamp a b y"
  by (auto simp add: clamp_def max_def min_def)

lemma clamp_range: "a \<le> b \<Longrightarrow> a \<le> clamp a b x \<and> clamp a b x \<le> b"
  by (simp add: clamp_def)

lemma clamp01_mono: "x \<le> y \<Longrightarrow> clamp01 x \<le> clamp01 y"
  by (simp add: clamp01_def clamp_mono)

lemma clamp01_range: "0 \<le> clamp01 x \<and> clamp01 x \<le> 1"
  by (simp add: clamp01_def clamp_def)

lemma clamp01_id: "0 \<le> x \<Longrightarrow> x \<le> 1 \<Longrightarrow> clamp01 x = x"
  by (simp add: clamp01_def clamp_def)

lemma js_round_mono: "x \<le> y \<Longrightarrow> js_round x \<le> js_round y"
  by (simp add: js_round_def floor_mono)

lemma js_round_between:
  assumes "of_int a \<le> x" and "x \<le> of_int b"
  shows "of_int a \<le> js_round x \<and> js_round x \<le> of_int b"
proof -
  have "a \<le> \<lfloor>x + 1 / 2\<rfloor>" using assms(1) by (simp add: le_floor_iff)
  moreover have "\<lfloor>x + 1 / 2\<rfloor> \<le> b" using assms(2) by (simp add: floor_le_iff)
  ultimately show ?thesis by (simp add: js_round_def)
qed

lemma lerp_up: "a \<le> b \<Longrightarrow> t \<le> u \<Longrightarrow> lerp a b t \<le> lerp a b u"
  by (simp add: lerp_def mult_left_mono)

lemma lerp_down: "b \<le> a \<Longrightarrow> t \<le> u \<Longrightarrow> lerp a b u \<le> lerp a b t"
  by (simp add: lerp_def mult_left_mono_neg)

lemma lerp_between_up:
  assumes "a \<le> b" and "0 \<le> t" and "t \<le> 1"
  shows "a \<le> lerp a b t \<and> lerp a b t \<le> b"
  using lerp_up [OF assms(1) assms(2)] lerp_up [OF assms(1) assms(3)]
  by (simp add: lerp_def)

lemma lerp_between_down:
  assumes "b \<le> a" and "0 \<le> t" and "t \<le> 1"
  shows "b \<le> lerp a b t \<and> lerp a b t \<le> a"
  using lerp_down [OF assms(1) assms(2)] lerp_down [OF assms(1) assms(3)]
  by (simp add: lerp_def)

lemma powEase_mono: "0 \<le> g \<Longrightarrow> x \<le> y \<Longrightarrow> powEase x g \<le> powEase y g"
  unfolding powEase_def
  by (rule powr_mono2) (simp_all add: clamp01_mono clamp01_range)

lemma powEase_range: "0 \<le> g \<Longrightarrow> 0 \<le> powEase x g \<and> powEase x g \<le> 1"
  unfolding powEase_def
  using powr_mono2 [of g "clamp01 x" 1] clamp01_range [of x]
  by simp

lemma hermite_mono:
  fixes a b :: real
  assumes "0 \<le> a" and "a \<le> b" and "b \<le> 1"
  shows "a * a * (3 - 2 * a) \<le> b * b * (3 - 2 * b)"
proof -
  have aa: "a * a \<le> a" using assms by (simp add: mult_left_le)
  have bb: "b * b \<le> b" using assms by (simp add: mult_left_le)
  have ab: "a * b \<le> a" using assms by (simp add: mult_left_le)
  have ab2: "a * b \<le> b" using assms mult_left_le_one_le [of b a] by simp
  define p q r where "p = a * a" and "q = a * b" and "r = b * b"
  have "0 \<le> 3 * (a + b) - 2 * (p + q + r)"
    using aa bb ab ab2 unfolding p_def [symmetric] q_def [symmetric] r_def [symmetric] by argo
  then have "0 \<le> (b - a) * (3 * (a + b) - 2 * (p + q + r))"
    using assms by (intro mult_nonneg_nonneg) simp_all
  then have "0 \<le> (b - a) * (3 * (a + b) - 2 * (a * a + a * b + b * b))"
    by (simp add: p_def q_def r_def)
  also have "\<dots> = b * b * (3 - 2 * b) - a * a * (3 - 2 * a)"
    by (simp add: algebra_simps)
  finally show ?thesis by simp
qed

lemma hermite_range:
  fixes a :: real
  assumes "0 \<le> a" and "a \<le> 1"
  shows "0 \<le> a * a * (3 - 2 * a) \<and> a * a * (3 - 2 * a) \<le> 1"
  using hermite_mono [of 0 a] hermite_mono [of a 1] assms by simp

lemma smoothstep_mono:
  assumes "e0 < e1" and "x \<le> y"
  shows "smoothstep e0 e1 x \<le> smoothstep e0 e1 y"
proof -
  have "(x - e0) / (e1 - e0) \<le> (y - e0) / (e1 - e0)"
    using assms by (simp add: divide_right_mono)
  then have "clamp01 ((x - e0) / (e1 - e0)) \<le> clamp01 ((y - e0) / (e1 - e0))"
    by (rule clamp01_mono)
  then show ?thesis
    unfolding smoothstep_def Let_def
    using clamp01_range by (intro hermite_mono) simp_all
qed

lemma smoothstep_range: "0 \<le> smoothstep e0 e1 x \<and> smoothstep e0 e1 x \<le> 1"
  unfolding smoothstep_def Let_def
  using clamp01_range by (intro hermite_range) simp_all

lemma shiftWhile_drop: "shiftWhile n xs = drop (length xs - n) xs"
proof (induction n xs rule: shiftWhile.induct)
  case (1 maxLen xs)
  show ?case
  proof (cases "length xs > maxLen")
    case True
    then obtain y ys where xs: "xs = y # ys" by (cases xs) auto
    have "shiftWhile maxLen xs = shiftWhile maxLen (tl xs)"
      using True by (subst shiftWhile.simps) simp
    also have "\<dots> = drop (length (tl xs) - maxLen) (tl xs)"
      using True by (rule "1.IH")
    also have "\<dots> = drop (length xs - maxLen) xs"
      using True by (simp add: xs Suc_diff_le)
    finally show ?thesis .
  next
    case False
    then show ?thesis by (subst shiftWhile.simps) simp
  qed
qed

lemma shiftWhile_length: "length (shiftWhile n xs) \<le> n"
  by (simp add: shiftWhile_drop)

section \<open>Facts about the phases of the turn handler\<close>

lemma scoreStage_no_signal: "scoreStage gs None None = (gs, None, last_state gs)"
  by (simp add: scoreStage_def)

lemma pulseGuard_initial: "pulseGuard createInitialGateState turn = False"
  by (simp add: pulseGuard_def shouldExplorationPulse_def createInitialGateState_def)

lemma metrics_empty: "meanSurprisal [] = None" "approxEntropy [] = None"
  by (simp_all add: meanSurprisal_def approxEntropy_def)

lemma resolveStage_state:
  "snd (resolveStage gs turn r e)
     = hysteresisUpdate (last_state gs) (fst (applyDimWeight r (dim e) gs)) 0.62 0.48 0.6"
  by (simp add: resolveStage_def Let_def)

lemma POST_gate_initial_no_logprobs:
  assumes "probeLogprobs inp = []"
  shows "state (POST_gate createInitialGateState turn inp)
     = hysteresisUpdate 0.3
         (fst (applyDimWeight 0.3 (dim (originalProbe inp)) createInitialGateState)) 0.62 0.48 0.6"
  using assms
  by (simp add: POST_gate_def Let_def metrics_empty scoreStage_no_signal pulseGuard_initial
      resolveStage_state) (simp add: createInitialGateState_def)


lemma updateStagnationBuffers_last_state:
  "last_state (updateStagnationBuffers gs d f st n) = last_state gs"
  by (simp add: updateStagnationBuffers_def Let_def)

lemma maybeRelax_last_state: "last_state (fst (maybeRelaxMetaCapStage gs turn)) = last_state gs"
  by (cases "recentMetaShare gs 12") (simp_all add: maybeRelaxMetaCapStage_def Let_def)

lemma resolveStage_last_state: "last_state (fst (resolveStage gs turn r e)) = snd (resolveStage gs turn r e)"
  by (simp add: resolveStage_def Let_def maybeRelax_last_state updateStagnationBuffers_last_state)

lemma POST_gate_last_state:
  "last_state (gate_after (POST_gate gs turn inp)) = state (POST_gate gs turn inp)"
  by (simp add: POST_gate_def Let_def resolveStage_last_state)

lemma updateStagnationBuffers_S: "S (updateStagnationBuffers gs d f st n) = S gs"
  by (simp add: updateStagnationBuffers_def Let_def)

lemma maybeRelax_S: "S (fst (maybeRelaxMetaCapStage gs turn)) = S gs"
  by (cases "recentMetaShare gs 12") (simp_all add: maybeRelaxMetaCapStage_def Let_def)

lemma resolveStage_S: "S (fst (resolveStage gs turn r e)) = S gs"
  by (simp add: resolveStage_def Let_def maybeRelax_S updateStagnationBuffers_S)

lemma scoreStage_S:
  "S (fst (scoreStage gs Sv Hv)) = (case Sv of None \<Rightarrow> S gs | Some x \<Rightarrow> inlineBaseline (S gs) x)"
  by (simp add: scoreStage_def Let_def split: option.splits)

lemma POST_gate_S:
  "S (gate_after (POST_gate gs turn inp))
     = (case meanSurprisal (sliceFirstLine (probeLogprobs inp) 30 []) of
          None \<Rightarrow> S gs
        | Some x \<Rightarrow> inlineBaseline (S gs) x)"
  by (simp add: POST_gate_def Let_def resolveStage_S scoreStage_S split: option.splits)

lemma pulseGuard_few_focus: "length (last_focus gs) < 8 \<Longrightarrow> pulseGuard gs turn = False"
  by (simp add: pulseGuard_def shouldExplorationPulse_def)

lemma POST_gate_quiet:
  assumes "probeLogprobs inp = []" and "length (last_focus gs) < 8"
  shows "POST_gate gs turn inp
       = \<lparr> gate_after = fst (resolveStage gs turn (last_state gs) (originalProbe inp)),
           state = snd (resolveStage gs turn (last_state gs) (originalProbe inp)),
           score = None, pulse_attempted = False, pulse_triggered = False,
           effectiveProbe = originalProbe inp \<rparr>"
  using assms
  by (simp add: POST_gate_def Let_def metrics_empty scoreStage_no_signal pulseGuard_few_focus)

lemma resolveStage_quiet_goal:
  assumes "last_state gs = x" and "0 \<le> x" and "x \<le> 0.48"
  shows "fst (resolveStage gs turn x \<lparr> raw = r, dim = Some ''GOAL'', focus = None,
                           next_step = None, why = None \<rparr>)
     = fst (maybeRelaxMetaCapStage
         (gs \<lparr> last_state := x,
               last_dims := drop (Suc (length (last_dims gs)) - 12) (last_dims gs @ [''GOAL'']),
               last_focus := drop (length (last_focus gs) - 12) (last_focus gs),
               last_states := drop (Suc (length (last_states gs)) - 12) (last_states gs @ [x]) \<rparr>) turn)"
proof -
  have h: "hysteresisUpdate x x 0.62 0.48 0.6 = x"
    using assms(2,3) by (simp add: hysteresisUpdate_def clamp01_def clamp_def)
  have w: "fst (applyDimWeight x (Some ''GOAL'') gs) = x"
    by (simp add: applyDimWeight_def)
  from h w show ?thesis
    by (simp add: resolveStage_def Let_def updateStagnationBuffers_def truthy_def shiftWhile_drop
      assms(1))
qed

section \<open>Gradient budgets: ranges and monotonicity\<close>

lemma ctx_keep_msgs_range: "4 \<le> ctx_keep_msgs s \<and> ctx_keep_msgs s \<le> 18"
  unfolding ctx_keep_msgs_def by (rule clamp_range) simp

lemma ctx_keep_msgs_mono: "s \<le> t \<Longrightarrow> ctx_keep_msgs s \<le> ctx_keep_msgs t"
  unfolding ctx_keep_msgs_def
  by (intro clamp_mono js_round_mono lerp_up powEase_mono) simp_all

lemma summary_chars_range: "0 \<le> summary_chars s \<and> summary_chars s \<le> 220"
proof -
  have "0 \<le> lerp 0 220 (smoothstep 0.22 0.62 s) \<and> lerp 0 220 (smoothstep 0.22 0.62 s) \<le> 220"
    using smoothstep_range by (intro lerp_between_up) simp_all
  then show ?thesis
    unfolding summary_chars_def
    using js_round_between [of 0 "lerp 0 220 (smoothstep 0.22 0.62 s)" 220] by simp
qed

lemma summary_chars_mono: "s \<le> t \<Longrightarrow> summary_chars s \<le> summary_chars t"
  unfolding summary_chars_def
  by (intro js_round_mono lerp_up smoothstep_mono) simp_all

lemma attn_items_range: "0 \<le> attn_items s \<and> attn_items s \<le> 10"
  unfolding attn_items_def by (rule clamp_range) simp

lemma attn_items_mono: "s \<le> t \<Longrightarrow> attn_items s \<le> attn_items t"
  unfolding attn_items_def
  by (intro clamp_mono js_round_mono lerp_up smoothstep_mono) simp_all

lemma frag_base_range:
  "0 \<le> clamp 0 10 (js_round (lerp 0 10 (smoothstep 0.20 0.86 s)))
   \<and> clamp 0 10 (js_round (lerp 0 10 (smoothstep 0.20 0.86 s))) \<le> 10"
  by (rule clamp_range) simp

lemma frag_base_mono:
  "s \<le> t \<Longrightarrow> clamp 0 10 (js_round (lerp 0 10 (smoothstep 0.20 0.86 s)))
     \<le> clamp 0 10 (js_round (lerp 0 10 (smoothstep 0.20 0.86 t)))"
  by (intro clamp_mono js_round_mono lerp_up smoothstep_mono) simp_all

lemma frag_base_int:
  "clamp 0 10 (js_round x) \<in> \<int>"
  by (simp add: clamp_def js_round_def max_def min_def)

lemma frag_items_range: "0 \<le> frag_items s ts \<and> frag_items s ts \<le> 10"
  using frag_base_range [of s] by (simp add: frag_items_def Let_def)

lemma frag_items_mono:
  assumes "s \<le> t"
  shows "frag_items s ts \<le> frag_items t ts"
proof -
  let ?b = "\<lambda>u. clamp 0 10 (js_round (lerp 0 10 (smoothstep 0.20 0.86 u)))"
  have m: "?b s \<le> ?b t" using assms by (rule frag_base_mono)
  have s0: "0 \<le> ?b s" using frag_base_range [of s] by simp
  obtain k :: int where k: "?b t = of_int k"
    using frag_base_int [of "lerp 0 10 (smoothstep 0.20 0.86 t)"] by (auto elim: Ints_cases)
  have pos: "?b t \<noteq> 0 \<Longrightarrow> 1 \<le> ?b t"
  proof -
    assume "?b t \<noteq> 0"
    moreover have "0 \<le> ?b t" using frag_base_range [of t] by simp
    ultimately have "0 < k" using k by simp
    then have "1 \<le> k" by simp
    then show "1 \<le> ?b t" using k by simp
  qed
  show ?thesis
    using m s0 pos by (auto simp add: frag_items_def Let_def)
qed

lemma summary_update_interval_range:
  "1 \<le> summary_update_interval s \<and> summary_update_interval s \<le> 18"
  unfolding summary_update_interval_def by (rule clamp_range) simp

lemma summary_update_interval_antimono:
  "s \<le> t \<Longrightarrow> summary_update_interval t \<le> summary_update_interval s"
  unfolding summary_update_interval_def
  by (intro clamp_mono js_round_mono lerp_down powEase_mono) simp_all

lemma summary_update_max_tokens_range:
  "20 \<le> summary_update_max_tokens s \<and> summary_update_max_tokens s \<le> 120"
  unfolding summary_update_max_tokens_def by (rule clamp_range) simp

lemma summary_update_max_tokens_mono:
  "s \<le> t \<Longrightarrow> summary_update_max_tokens s \<le> summary_update_max_tokens t"
  unfolding summary_update_max_tokens_def
  by (intro clamp_mono js_round_mono lerp_up powEase_mono) simp_all

lemma max_output_tokens_range:
  assumes "0 \<le> s" and "s \<le> 1"
  shows "60 \<le> max_output_tokens s pulse \<and> max_output_tokens s pulse \<le> 520"
proof -
  have "60 \<le> lerp 60 520 s \<and> lerp 60 520 s \<le> 520"
    using assms by (intro lerp_between_up) simp_all
  then have "60 \<le> js_round (lerp 60 520 s) \<and> js_round (lerp 60 520 s) \<le> 520"
    using js_round_between [of 60 "lerp 60 520 s" 520] by simp
  then show ?thesis
    by (auto simp add: max_output_tokens_def Let_def)
qed

lemma max_output_tokens_mono:
  assumes "s \<le> t"
  shows "max_output_tokens s pulse \<le> max_output_tokens t pulse"
proof -
  have "js_round (lerp 60 520 s) \<le> js_round (lerp 60 520 t)"
    using assms by (intro js_round_mono lerp_up) simp_all
  then show ?thesis
    by (auto simp add: max_output_tokens_def Let_def)
qed

lemma temperature_range:
  assumes "0 \<le> s" and "s \<le> 1"
  shows "0.05 \<le> temperature s \<and> temperature s \<le> 0.70"
proof -
  have "0.05 \<le> lerp 0.05 0.7 s \<and> lerp 0.05 0.7 s \<le> 0.7"
    using assms by (intro lerp_between_up) simp_all
  then show ?thesis
    by (simp add: temperature_def clamp_def)
qed

lemma temperature_mono: "s \<le> t \<Longrightarrow> temperature s \<le> temperature t"
  unfolding temperature_def
  by (intro clamp_mono lerp_up) simp_all

text \<open>
  Claim C1. For every state \<open>s\<close> in \<open>[0,1]\<close> each budget lies in its documented range:
  context messages in \<open>[4,18]\<close>, summary characters in \<open>[0,220]\<close>, attention-log items
  and salience-fragment items in \<open>[0,10]\<close>, the summary refresh interval in \<open>[1,18]\<close>,
  the summary refresh token budget in \<open>[20,120]\<close>, the main response token budget in
  \<open>[60,520]\<close> and the temperature in \<open>[0.05,0.70]\<close>. For states \<open>s \<le> t\<close> in \<open>[0,1]\<close>
  every budget at \<open>s\<close> is at most the budget at \<open>t\<close>, except the summary refresh
  interval, which at \<open>t\<close> is at most its value at \<open>s\<close>. The fragment budget is taken at
  any fixed top salience of the bank, the response budget with or without a pulse.
\<close>

theorem gradient_budgets_range_and_monotone:
  assumes "0 \<le> s" and "s \<le> t" and "t \<le> 1"
  shows "4 \<le> ctx_keep_msgs s \<and> ctx_keep_msgs s \<le> 18
       \<and> 0 \<le> summary_chars s \<and> summary_chars s \<le> 220
       \<and> 0 \<le> attn_items s \<and> attn_items s \<le> 10
       \<and> 0 \<le> frag_items s top_sal \<and> frag_items s top_sal \<le> 10
       \<and> 1 \<le> summary_update_interval s \<and> summary_update_interval s \<le> 18
       \<and> 20 \<le> summary_update_max_tokens s \<and> summary_update_max_tokens s \<le> 120
       \<and> 60 \<le> max_output_tokens s pulse \<and> max_output_tokens s pulse \<le> 520
       \<and> 0.05 \<le> temperature s \<and> temperature s \<le> 0.70
       \<and> ctx_keep_msgs s \<le> ctx_keep_msgs t
       \<and> summary_chars s \<le> summary_chars t
       \<and> attn_items s \<le> attn_items t
       \<and> frag_items s top_sal \<le> frag_items t top_sal
       \<and> summary_update_interval t \<le> summary_update_interval s
       \<and> summary_update_max_tokens s \<le> summary_update_max_tokens t
       \<and> max_output_tokens s pulse \<le> max_output_tokens t pulse
       \<and> temperature s \<le> temperature t"
proof -
  have s1: "s \<le> 1" using assms by simp
  note r = ctx_keep_msgs_range [of s] summary_chars_range [of s] attn_items_range [of s]
    frag_items_range [of s top_sal] summary_update_interval_range [of s]
    summary_update_max_tokens_range [of s]
    max_output_tokens_range [OF assms(1) s1, of pulse] temperature_range [OF assms(1) s1]
  note m = ctx_keep_msgs_mono [OF assms(2)] summary_chars_mono [OF assms(2)]
    attn_items_mono [OF assms(2)] frag_items_mono [OF assms(2), of top_sal]
    summary_update_interval_antimono [OF assms(2)] summary_update_max_tokens_mono [OF assms(2)]
    max_output_tokens_mono [OF assms(2), of pulse] temperature_mono [OF assms(2)]
  from r m show ?thesis by blast
qed

theorem gradient_budgets_witness:
  "ctx_keep_msgs 0 = 4 \<and> ctx_keep_msgs 1 = 18
   \<and> summary_update_interval 0 = 18 \<and> summary_update_interval 1 = 1
   \<and> summary_update_max_tokens 0 = 25 \<and> summary_update_max_tokens 1 = 90
   \<and> max_output_tokens 0 False = 60 \<and> max_output_tokens 1 False = 520
   \<and> temperature 0 = 0.05 \<and> temperature 1 = 0.7
   \<and> summary_chars 0 \<le> summary_chars 1 \<and> attn_items 0 \<le> attn_items 1
   \<and> frag_items 0 0.95 \<le> frag_items 1 0.95"
  using gradient_budgets_range_and_monotone [of 0 1 "0.95" False]
  by (simp add: ctx_keep_msgs_def summary_update_interval_def summary_update_max_tokens_def
      max_output_tokens_def temperature_def powEase_def clamp01_def clamp_def lerp_def js_round_def)

section \<open>Hysteresis\<close>

text \<open>
  Claim C2 as stated, with the closed band, fails at the lower edge of the band: from the
  previous state 0.3 and the raw value 0.48 the code moves to 0.372, where the closed
  band would hold the state at 0.3.
\<close>

theorem hysteresis_closed_band_counterexample:
  "hysteresisUpdate 0.3 0.48 0.62 0.48 0.6 = 0.372 \<and> hysteresis_spec 0.3 0.48 = 0.3
   \<and> hysteresisUpdate 0.3 0.48 0.62 0.48 0.6 \<noteq> hysteresis_spec 0.3 0.48"
  by (simp add: hysteresisUpdate_def hysteresis_spec_def clamp01_def clamp_def)

text \<open>
  Claim C2, amended. For every previous state in \<open>[0,1]\<close> and every raw value the
  hysteresis update returns the clamp to \<open>[0,1]\<close> of \<open>0.6 * prev + 0.4 * target\<close>, where the
  target is the previous state when the raw value lies strictly inside the band, between
  0.48 and 0.62 exclusive, and the raw value otherwise (the two edges included); the
  returned state lies in \<open>[0,1]\<close>.
\<close>

theorem hysteresisUpdate_open_band:
  assumes "0 \<le> prev" and "prev \<le> 1"
  shows "hysteresisUpdate prev raw_v 0.62 0.48 0.6
           = clamp01 (0.6 * prev + 0.4 * (if 0.48 < raw_v \<and> raw_v < 0.62 then prev else raw_v))
         \<and> 0 \<le> hysteresisUpdate prev raw_v 0.62 0.48 0.6
         \<and> hysteresisUpdate prev raw_v 0.62 0.48 0.6 \<le> 1"
  by (auto simp add: hysteresisUpdate_def clamp01_def clamp_def Let_def)

theorem hysteresisUpdate_open_band_witness:
  "hysteresisUpdate 0.3 0.55 0.62 0.48 0.6 = 0.3 \<and> hysteresisUpdate 0.3 0.9 0.62 0.48 0.6 = 0.54
   \<and> hysteresisUpdate 0.3 0.62 0.62 0.48 0.6 = 0.428"
  using hysteresisUpdate_open_band [of "0.3" "0.55"] hysteresisUpdate_open_band [of "0.3" "0.9"]
    hysteresisUpdate_open_band [of "0.3" "0.62"]
  by (simp add: clamp01_def clamp_def)

section \<open>First turn without logprobs\<close>

lemma initial_resolve:
  "hysteresisUpdate 0.3 (fst (applyDimWeight 0.3 d createInitialGateState)) 0.62 0.48 0.6
     = (if d = Some ''RISK'' then 0.3712 else 0.3)"
  by (simp add: applyDimWeight_def metaCapValue_def createInitialGateState_def Let_def
      hysteresisUpdate_def clamp01_def clamp_def lerp_def)

text \<open>
  On the first turn of a new session without logprobs the state stays at 0.3 for every
  parsed dimension but RISK, whatever the probe text, the focus and the pulse replies;
  the stored \<open>last_state\<close> is the resolved state.
\<close>

lemma first_turn_missing_logprobs_state:
  assumes "probeLogprobs inp = []"
  shows "state (POST_gate createInitialGateState 1 inp)
           = (if dim (originalProbe inp) = Some ''RISK'' then 0.3712 else 0.3)
       \<and> last_state (fst (session_step new_session (ProbeReply inp)))
           = state (POST_gate createInitialGateState 1 inp)"
proof -
  have "state (POST_gate createInitialGateState 1 inp)
      = (if dim (originalProbe inp) = Some ''RISK'' then 0.3712 else 0.3)"
    unfolding POST_gate_initial_no_logprobs [OF assms] initial_resolve ..
  then show ?thesis
    by (simp add: new_session_def POST_gate_last_state)
qed

lemma first_turn_risk_value:
  "state (POST_gate createInitialGateState 1
      \<lparr> probeLogprobs = [],
        originalProbe = \<lparr> raw = ''DIM: RISK'', dim = Some ''RISK'', focus = None,
                          next_step = None, why = None \<rparr>,
        explore = ExploreThrows \<rparr>) = 0.3712"
  by (subst POST_gate_initial_no_logprobs, simp, subst initial_resolve, simp)

text \<open>
  Claim C3 against the code. A new session (\<open>last_state = 0.3\<close>) whose first probe carries
  no logprobs and names the dimension RISK does not keep the state 0.3: the fallback raw
  state 0.3 receives the RISK boost (0.478), which lies below the hysteresis band, so
  the resolved state is \<open>0.6 * 0.3 + 0.4 * 0.478 = 0.3712\<close>.
\<close>

theorem first_turn_missing_logprobs_risk:
  "state (POST_gate createInitialGateState 1
      \<lparr> probeLogprobs = [],
        originalProbe = \<lparr> raw = ''DIM: RISK'', dim = Some ''RISK'', focus = None,
                          next_step = None, why = None \<rparr>,
        explore = ExploreThrows \<rparr>) = 0.3712
   \<and> state (POST_gate createInitialGateState 1
      \<lparr> probeLogprobs = [],
        originalProbe = \<lparr> raw = ''DIM: RISK'', dim = Some ''RISK'', focus = None,
                          next_step = None, why = None \<rparr>,
        explore = ExploreThrows \<rparr>) \<noteq> 0.3"
  unfolding first_turn_risk_value by simp

section \<open>Baseline variance\<close>

lemma emaUpdate_floor: "EPS \<le> var (emaUpdate stats x eta)"
  by (simp add: emaUpdate_def Let_def)

lemma inlineBaseline_at_mean:
  "inlineBaseline stats (mean stats) = \<lparr> mean = mean stats, var = (47 / 50) * var stats \<rparr>"
  by (simp add: inlineBaseline_def ETA_def Let_def algebra_simps)

lemma steady_surprisal:
  "meanSurprisal [\<lparr> token = ''DIM'', logprob = - 2, top_logprobs = None \<rparr>] = Some 2"
  by (simp add: meanSurprisal_def Let_def)

lemma steady_step:
  assumes "mean (S gs) = 2"
  shows "S (fst (session_step (gs, t)
       (ProbeReply \<lparr> probeLogprobs = [\<lparr> token = ''DIM'', logprob = - 2, top_logprobs = None \<rparr>],
          originalProbe = p, explore = r \<rparr>)))
   = \<lparr> mean = 2, var = (47 / 50) * var (S gs) \<rparr>"
  using inlineBaseline_at_mean [of "S gs"] assms
  by (simp add: POST_gate_S steady_surprisal)

lemma steady_run:
  assumes "mean (S (fst s)) = 2"
  shows "S (fst (foldl session_step s
       (replicate n (ProbeReply \<lparr> probeLogprobs = [\<lparr> token = ''DIM'', logprob = - 2, top_logprobs = None \<rparr>],
          originalProbe = p, explore = r \<rparr>))))
   = \<lparr> mean = 2, var = (47 / 50) ^ n * var (S (fst s)) \<rparr>"
  using assms
proof (induction n arbitrary: s)
  case 0
  then show ?case by simp
next
  case (Suc n)
  obtain gs t where s: "s = (gs, t)" by (cases s)
  let ?ev = "ProbeReply \<lparr> probeLogprobs = [\<lparr> token = ''DIM'', logprob = - 2, top_logprobs = None \<rparr>],
          originalProbe = p, explore = r \<rparr>"
  have m: "mean (S gs) = 2" using Suc.prems by (simp add: s)
  have st: "S (fst (session_step s ?ev)) = \<lparr> mean = 2, var = (47 / 50) * var (S gs) \<rparr>"
    unfolding s by (rule steady_step [OF m])
  then have "mean (S (fst (session_step s ?ev))) = 2" by simp
  from Suc.IH [OF this] st show ?case
    by (simp add: s)
qed

lemma decay_38: "(47 / 50 :: real) ^ 38 < 1 / 10"
  by (simp add: power_divide)

lemma decay_304: "(47 / 50 :: real) ^ 304 < 1 / 10 ^ 8"
proof -
  have "((47 / 50 :: real) ^ 38) ^ 8 < (1 / 10) ^ 8"
    using decay_38 by (intro power_strict_mono) simp_all
  then show ?thesis
    by (simp only: power_mult [symmetric] power_one_over) simp
qed

text \<open>
  Claim C4 against the code. \<^verbatim>\<open>emaUpdate\<close> floors the variance at \<open>EPS\<close> (lemma
  \<open>emaUpdate_floor\<close>), but \<^verbatim>\<open>POST\<close> does not call it: its inline update stores the
  variance without the floor. In a new session, 304 turns whose probe has the mean
  surprisal 2.0 (the initial baseline mean) leave the stored surprisal variance at
  \<open>0.94 ^ 304\<close>, below the floor \<open>1e-8\<close>.
\<close>

theorem inline_baseline_variance_below_floor:
  "var (S (fst (run_session new_session
      (replicate 304 (ProbeReply
         \<lparr> probeLogprobs = [\<lparr> token = ''DIM'', logprob = - 2, top_logprobs = None \<rparr>],
           originalProbe = \<lparr> raw = ''DIM: GOAL'', dim = Some ''GOAL'', focus = None,
                             next_step = None, why = None \<rparr>,
           explore = ExploreThrows \<rparr>))))) < EPS"
proof -
  have "mean (S (fst new_session)) = 2" "var (S (fst new_session)) = 1"
    by (simp_all add: new_session_def createInitialGateState_def)
  then show ?thesis
    unfolding run_session_def
    using decay_304 by (simp only: steady_run) (simp add: EPS_def)
qed

section \<open>META cap governor\<close>

lemma maybeRelax_stage:
  "meta_cap_stage (fst (maybeRelaxMetaCapStage gs turn)) = meta_cap_stage gs
   \<or> (meta_cap_stage gs = 0 \<and> meta_cap_stage (fst (maybeRelaxMetaCapStage gs turn)) = 1)
   \<or> (meta_cap_stage gs = 1 \<and> meta_cap_stage (fst (maybeRelaxMetaCapStage gs turn)) = 2)"
  by (cases "recentMetaShare gs 12") (simp_all add: maybeRelaxMetaCapStage_def Let_def)

lemma updateStagnationBuffers_stage:
  "meta_cap_stage (updateStagnationBuffers gs d f st n) = meta_cap_stage gs"
  by (simp add: updateStagnationBuffers_def Let_def)

lemma scoreStage_stage: "meta_cap_stage (fst (scoreStage gs Sv Hv)) = meta_cap_stage gs"
  by (simp add: scoreStage_def Let_def split: option.splits)

lemma resolveStage_stage:
  "meta_cap_stage (fst (resolveStage gs turn r e)) = meta_cap_stage gs
   \<or> (meta_cap_stage gs = 0 \<and> meta_cap_stage (fst (resolveStage gs turn r e)) = 1)
   \<or> (meta_cap_stage gs = 1 \<and> meta_cap_stage (fst (resolveStage gs turn r e)) = 2)"
  using maybeRelax_stage
    [of "updateStagnationBuffers
           (gs \<lparr> last_state := hysteresisUpdate (last_state gs) (fst (applyDimWeight r (dim e) gs)) 0.62 0.48 0.6 \<rparr>)
           (dim e) (focus e)
           (hysteresisUpdate (last_state gs) (fst (applyDimWeight r (dim e) gs)) 0.62 0.48 0.6) 12" turn]
  by (simp add: resolveStage_def Let_def updateStagnationBuffers_stage)

lemma POST_gate_stage:
  "meta_cap_stage (gate_after (POST_gate gs turn inp)) = meta_cap_stage gs
   \<or> (meta_cap_stage gs = 0 \<and> meta_cap_stage (gate_after (POST_gate gs turn inp)) = 1)
   \<or> (meta_cap_stage gs = 1 \<and> meta_cap_stage (gate_after (POST_gate gs turn inp)) = 2)"
proof -
  define Sv where "Sv = meanSurprisal (sliceFirstLine (probeLogprobs inp) 30 [])"
  define Hv where "Hv = approxEntropy (sliceFirstLine (probeLogprobs inp) 30 [])"
  define gs2 where "gs2 = fst (scoreStage gs Sv Hv)"
  define sel where "sel = (if pulseGuard gs2 turn then pulseSelect (explore inp) else None)"
  define gs3 where "gs3 = (case sel of None \<Rightarrow> gs2 | Some c \<Rightarrow> gs2 \<lparr> last_pulse_turn := turn \<rparr>)"
  define eff where "eff = (case sel of None \<Rightarrow> originalProbe inp | Some c \<Rightarrow> c)"
  have g: "gate_after (POST_gate gs turn inp)
         = fst (resolveStage gs3 turn (snd (snd (scoreStage gs Sv Hv))) eff)"
    unfolding POST_gate_def Let_def gs3_def eff_def sel_def gs2_def Sv_def Hv_def by simp
  have "meta_cap_stage gs3 = meta_cap_stage gs"
    by (simp add: gs3_def gs2_def scoreStage_stage split: option.splits)
  with resolveStage_stage [of gs3 turn "snd (snd (scoreStage gs Sv Hv))" eff] show ?thesis
    unfolding g by simp
qed

lemma session_step_stage:
  "meta_cap_stage (fst (session_step s ev)) = meta_cap_stage (fst s)
   \<or> (meta_cap_stage (fst s) = 0 \<and> meta_cap_stage (fst (session_step s ev)) = 1)
   \<or> (meta_cap_stage (fst s) = 1 \<and> meta_cap_stage (fst (session_step s ev)) = 2)"
proof (cases s)
  case (Pair gs t)
  show ?thesis
  proof (cases ev)
    case ProbeThrows
    then show ?thesis by (simp add: Pair)
  next
    case (ProbeReply inp)
    then show ?thesis using POST_gate_stage [of gs "t + 1" inp] by (simp add: Pair)
  qed
qed

lemma session_step_stage_le: "meta_cap_stage (fst s) \<le> meta_cap_stage (fst (session_step s ev))"
  using session_step_stage [of s ev] by auto

lemma run_session_stage_le: "meta_cap_stage (fst s) \<le> meta_cap_stage (fst (run_session s evs))"
  unfolding run_session_def
proof (induction evs arbitrary: s)
  case Nil
  show ?case by simp
next
  case (Cons ev evs)
  have "meta_cap_stage (fst s) \<le> meta_cap_stage (fst (session_step s ev))"
    by (rule session_step_stage_le)
  also have "\<dots> \<le> meta_cap_stage (fst (foldl session_step (session_step s ev) evs))"
    by (rule Cons.IH)
  finally show ?case by simp
qed

lemma metaCapValue_table:
  "metaCapValue 0 = Some 0.55" "metaCapValue 1 = Some 0.65" "metaCapValue 2 = None"
  by (simp_all add: metaCapValue_def)

text \<open>
  Twelve turns without logprobs whose probe names GOAL bring a new session to stage 1
  (at turn 12), thirty such turns to stage 2 (at turn 30).
\<close>

lemma quiet_run_12:
  "run_session new_session
    (replicate 12 (ProbeReply
       \<lparr> probeLogprobs = [],
         originalProbe = \<lparr> raw = ''DIM: GOAL'', dim = Some ''GOAL'', focus = None,
                           next_step = None, why = None \<rparr>,
         explore = ExploreThrows \<rparr>))
   = (createInitialGateState \<lparr> last_dims := replicate 12 ''GOAL'', last_states := replicate 12 (3 / 10),
        meta_cap_stage := 1, meta_cap_last_change_turn := 12 \<rparr>, 12)"
  by (simp add: run_session_def new_session_def eval_nat_numeral POST_gate_quiet
      createInitialGateState_def resolveStage_quiet_goal [where x = "3 / 10"]
      maybeRelaxMetaCapStage_def recentMetaShare_def slice_last_def Let_def)


lemma quiet_run_30:
  "run_session new_session
    (replicate 30 (ProbeReply
       \<lparr> probeLogprobs = [],
         originalProbe = \<lparr> raw = ''DIM: GOAL'', dim = Some ''GOAL'', focus = None,
                           next_step = None, why = None \<rparr>,
         explore = ExploreThrows \<rparr>))
   = (createInitialGateState \<lparr> last_dims := replicate 12 ''GOAL'', last_states := replicate 12 (3 / 10),
        meta_cap_stage := 2, meta_cap_last_change_turn := 30 \<rparr>, 30)"
  by (simp add: run_session_def new_session_def eval_nat_numeral POST_gate_quiet
      createInitialGateState_def resolveStage_quiet_goal [where x = "3 / 10"]
      maybeRelaxMetaCapStage_def recentMetaShare_def slice_last_def Let_def)

text \<open>
  Claim C5. Over every sequence of turns the META cap stage never decreases: the stage
  after a longer run of a session is at least the stage after any prefix of it. A single
  turn leaves the stage as it is, or moves it from 0 to 1, or from 1 to 2. The cap of
  stage 0 is 0.55, of stage 1 is 0.65, and stage 2 has no cap.
\<close>

theorem meta_cap_stage_monotone:
  "meta_cap_stage (fst (run_session s evs)) \<le> meta_cap_stage (fst (run_session s (evs @ later)))
   \<and> (meta_cap_stage (fst (session_step s ev)) = meta_cap_stage (fst s)
      \<or> (meta_cap_stage (fst s) = 0 \<and> meta_cap_stage (fst (session_step s ev)) = 1)
      \<or> (meta_cap_stage (fst s) = 1 \<and> meta_cap_stage (fst (session_step s ev)) = 2))
   \<and> metaCapValue 0 = Some 0.55 \<and> metaCapValue 1 = Some 0.65 \<and> metaCapValue 2 = None"
proof -
  have "run_session s (evs @ later) = run_session (run_session s evs) later"
    by (simp add: run_session_def)
  then have "meta_cap_stage (fst (run_session s evs)) \<le> meta_cap_stage (fst (run_session s (evs @ later)))"
    using run_session_stage_le [of "run_session s evs" later] by simp
  then show ?thesis
    using session_step_stage [of s ev] metaCapValue_table by blast
qed

theorem meta_cap_stage_monotone_witness:
  "meta_cap_stage (fst (run_session new_session
      (replicate 12 (ProbeReply
       \<lparr> probeLogprobs = [],
         originalProbe = \<lparr> raw = ''DIM: GOAL'', dim = Some ''GOAL'', focus = None,
                           next_step = None, why = None \<rparr>,
         explore = ExploreThrows \<rparr>)))) = 1
   \<and> meta_cap_stage (fst (run_session new_session
      (replicate 30 (ProbeReply
       \<lparr> probeLogprobs = [],
         originalProbe = \<lparr> raw = ''DIM: GOAL'', dim = Some ''GOAL'', focus = None,
                           next_step = None, why = None \<rparr>,
         explore = ExploreThrows \<rparr>)))) = 2
   \<and> meta_cap_stage (fst (run_session new_session [ProbeThrows]))
       \<le> meta_cap_stage (fst (run_session new_session ([ProbeThrows] @ [ProbeThrows])))"
proof (intro conjI)
  show "meta_cap_stage (fst (run_session new_session [ProbeThrows]))
       \<le> meta_cap_stage (fst (run_session new_session ([ProbeThrows] @ [ProbeThrows])))"
    by (rule meta_cap_stage_monotone [of new_session "[ProbeThrows]" "[ProbeThrows]", THEN conjunct1])
qed (simp_all add: quiet_run_12 quiet_run_30)

section \<open>Exploration pulse guard\<close>

lemma scoreStage_gate: "\<exists>s h. fst (scoreStage gs Sv Hv) = gs \<lparr> S := s, H := h \<rparr>"
proof -
  have "fst (scoreStage gs Sv Hv)
      = gs \<lparr> S := (case Sv of None \<Rightarrow> S gs | Some x \<Rightarrow> inlineBaseline (S gs) x),
             H := (case Hv of None \<Rightarrow> H gs | Some x \<Rightarrow> inlineBaseline (H gs) x) \<rparr>"
    by (simp add: scoreStage_def Let_def split: option.splits)
  then show ?thesis by blast
qed

lemma pulseGuard_baselines: "pulseGuard (gs \<lparr> S := s, H := h \<rparr>) turn = pulseGuard gs turn"
  by (simp add: pulseGuard_def shouldExplorationPulse_def)

lemma pulseGuard_scoreStage: "pulseGuard (fst (scoreStage gs Sv Hv)) turn = pulseGuard gs turn"
  using scoreStage_gate [of gs Sv Hv] pulseGuard_baselines by metis

lemma POST_gate_attempted: "pulse_attempted (POST_gate gs turn inp) = pulseGuard gs turn"
  by (simp add: POST_gate_def Let_def pulseGuard_scoreStage)

lemma pulseGuard_conditions:
  "pulseGuard gs turn \<longleftrightarrow>
     8 \<le> length (last_states gs) \<and> 8 \<le> length (last_dims gs) \<and> 8 \<le> length (last_focus gs)
     \<and> variance (slice_last 8 (last_states gs)) < 0.002
     \<and> card (set (slice_last 8 (last_dims gs))) \<le> 1
     \<and> card (set (slice_last 8 (last_focus gs))) \<le> 2
     \<and> 6 \<le> turn - last_pulse_turn gs
     \<and> last (last_dims gs) \<noteq> ''RISK''
     \<and> last_state gs < 0.6"
  by (auto simp add: pulseGuard_def shouldExplorationPulse_def lowDiversity_def Let_def)

lemma foldl_squares:
  "foldl (\<lambda>acc x. acc + (x - m) ^ 2) a xs = a + sum_list (map (\<lambda>x. (x - m) ^ 2) xs)"
  for a m :: real
  by (induction xs arbitrary: a) simp_all

lemma foldl_plus_real: "foldl (+) a xs = a + sum_list xs" for a :: real
  by (induction xs arbitrary: a) simp_all

lemma variance_of_8:
  assumes "length xs = 8"
  shows "variance xs = sum_list (map (\<lambda>x. (x - sum_list xs / 8) ^ 2) xs) / 7"
  using assms by (simp add: variance_def Let_def foldl_squares foldl_plus_real)

lemma slice_last_8_length: "8 \<le> length xs \<Longrightarrow> length (slice_last 8 xs) = 8"
  by (simp add: slice_last_def)

lemma quiet_run_8:
  "run_session new_session
    (replicate 8 (ProbeReply
       \<lparr> probeLogprobs = [],
         originalProbe = \<lparr> raw = ''DIM: GOAL'', dim = Some ''GOAL'', focus = None,
                           next_step = None, why = None \<rparr>,
         explore = ExploreThrows \<rparr>))
   = (createInitialGateState \<lparr> last_dims := replicate 8 ''GOAL'', last_states := replicate 8 (3 / 10) \<rparr>, 8)"
  by (simp add: run_session_def new_session_def eval_nat_numeral POST_gate_quiet
      createInitialGateState_def resolveStage_quiet_goal [where x = "3 / 10"]
      maybeRelaxMetaCapStage_def recentMetaShare_def slice_last_def Let_def)

text \<open>
  Claim C6 as stated asks for at least 8 buffered entries, where the code asks for 8
  entries in each of the three buffers. In a new session, after 8 turns whose probe has
  a DIM line (GOAL) but no FOCUS line, 8 states and 8 equal labels are buffered, the
  states are all 0.3, no focus string is buffered, no pulse has fired and the previous
  state is 0.3: every listed condition holds at turn 9, and no request is made.
\<close>

theorem exploration_pulse_buffers_counterexample:
  "pulse_conditions_spec
      (fst (run_session new_session
        (replicate 8 (ProbeReply
           \<lparr> probeLogprobs = [],
             originalProbe = \<lparr> raw = ''DIM: GOAL'', dim = Some ''GOAL'', focus = None,
                               next_step = None, why = None \<rparr>,
             explore = ExploreThrows \<rparr>)))) 9
   \<and> \<not> pulse_attempted (POST_gate
      (fst (run_session new_session
        (replicate 8 (ProbeReply
           \<lparr> probeLogprobs = [],
             originalProbe = \<lparr> raw = ''DIM: GOAL'', dim = Some ''GOAL'', focus = None,
                               next_step = None, why = None \<rparr>,
             explore = ExploreThrows \<rparr>)))) 9
      \<lparr> probeLogprobs = [],
        originalProbe = \<lparr> raw = ''DIM: GOAL'', dim = Some ''GOAL'', focus = None,
                          next_step = None, why = None \<rparr>,
        explore = ExploreThrows \<rparr>)"
  unfolding quiet_run_8
  by (simp add: pulse_conditions_spec_def variance_spec_def slice_last_def
      createInitialGateState_def POST_gate_attempted pulseGuard_few_focus eval_nat_numeral)

text \<open>
  Claim C6, amended. In a turn, the request for alternative probe candidates is made if
  and only if each of the three stagnation buffers (states, dimension labels, focus
  strings) holds at least 8 entries, the sample variance of the last 8 buffered states
  (the sum of their squared deviations from their mean, divided by 7) is below 0.002,
  the last 8 buffered dimension labels have at most 1 distinct value, the last 8
  buffered focus strings have at most 2 distinct values, the turn counter is at least 6
  beyond the turn of the last pulse, the latest buffered dimension (the repeating one)
  is not RISK, and the previous state is below 0.6. The buffers, the pulse turn and the
  previous state are those the session holds when the turn starts.
\<close>

theorem exploration_pulse_attempt_iff:
  "pulse_attempted (POST_gate gs turn inp) \<longleftrightarrow>
     8 \<le> length (last_states gs) \<and> 8 \<le> length (last_dims gs) \<and> 8 \<le> length (last_focus gs)
     \<and> sum_list (map (\<lambda>x. (x - sum_list (slice_last 8 (last_states gs)) / 8) ^ 2)
                    (slice_last 8 (last_states gs))) / 7 < 0.002
     \<and> card (set (slice_last 8 (last_dims gs))) \<le> 1
     \<and> card (set (slice_last 8 (last_focus gs))) \<le> 2
     \<and> 6 \<le> turn - last_pulse_turn gs
     \<and> last (last_dims gs) \<noteq> ''RISK''
     \<and> last_state gs < 0.6"
proof (cases "8 \<le> length (last_states gs)")
  case True
  have v: "variance (slice_last 8 (last_states gs))
      = sum_list (map (\<lambda>x. (x - sum_list (slice_last 8 (last_states gs)) / 8) ^ 2)
                    (slice_last 8 (last_states gs))) / 7"
    by (rule variance_of_8) (rule slice_last_8_length [OF True])
  show ?thesis
    unfolding POST_gate_attempted pulseGuard_conditions v by (rule refl)
next
  case False
  then show ?thesis
    unfolding POST_gate_attempted pulseGuard_conditions by simp
qed

text \<open>
  Three gate states at turn 9, each with 8 equal labels and 8 equal focus strings. States
  alternating between 0.30 and 0.32 have the sample variance 0.0008 / 7: the request is
  made. States 0.385, 0.215 and six times 0.3 have squared deviations summing to
  0.01445, which is below 0.002 when divided by 8 but not when divided by 7: no request.
  With the label RISK no request is made either.
\<close>

theorem exploration_pulse_attempt_witness:
  "pulse_attempted (POST_gate
      (createInitialGateState
         \<lparr> last_dims := [''GOAL'', ''GOAL'', ''GOAL'', ''GOAL'', ''GOAL'', ''GOAL'', ''GOAL'', ''GOAL''],
           last_focus := [''plan'', ''plan'', ''plan'', ''plan'', ''plan'', ''plan'', ''plan'', ''plan''],
           last_states := [0.30, 0.32, 0.30, 0.32, 0.30, 0.32, 0.30, 0.32] \<rparr>) 9
      \<lparr> probeLogprobs = [],
        originalProbe = \<lparr> raw = ''DIM: GOAL'', dim = Some ''GOAL'', focus = Some ''plan'',
                          next_step = None, why = None \<rparr>,
        explore = ExploreThrows \<rparr>)
   \<and> \<not> pulse_attempted (POST_gate
      (createInitialGateState
         \<lparr> last_dims := [''GOAL'', ''GOAL'', ''GOAL'', ''GOAL'', ''GOAL'', ''GOAL'', ''GOAL'', ''GOAL''],
           last_focus := [''plan'', ''plan'', ''plan'', ''plan'', ''plan'', ''plan'', ''plan'', ''plan''],
           last_states := [0.385, 0.215, 0.3, 0.3, 0.3, 0.3, 0.3, 0.3] \<rparr>) 9
      \<lparr> probeLogprobs = [],
        originalProbe = \<lparr> raw = ''DIM: GOAL'', dim = Some ''GOAL'', focus = Some ''plan'',
                          next_step = None, why = None \<rparr>,
        explore = ExploreThrows \<rparr>)
   \<and> \<not> pulse_attempted (POST_gate
      (createInitialGateState
         \<lparr> last_dims := [''RISK'', ''RISK'', ''RISK'', ''RISK'', ''RISK'', ''RISK'', ''RISK'', ''RISK''],
           last_focus := [''plan'', ''plan'', ''plan'', ''plan'', ''plan'', ''plan'', ''plan'', ''plan''],
           last_states := [0.30, 0.32, 0.30, 0.32, 0.30, 0.32, 0.30, 0.32] \<rparr>) 9
      \<lparr> probeLogprobs = [],
        originalProbe = \<lparr> raw = ''DIM: RISK'', dim = Some ''RISK'', focus = Some ''plan'',
                          next_step = None, why = None \<rparr>,
        explore = ExploreThrows \<rparr>)"
  by (simp add: exploration_pulse_attempt_iff createInitialGateState_def slice_last_def
      power2_eq_square)

section \<open>Fragment upsert\<close>

lemma mergeInto_keys: "map key (mergeInto frags inc) = map key frags"
  by (induction frags) simp_all

lemma mergeInto_map:
  assumes "distinct (map key frags)"
  shows "mergeInto frags inc
       = map (\<lambda>f. if key f = in_key inc
                   then f \<lparr> frag_text := in_text inc, frag_dim := in_dim inc,
                            frag_focus := in_focus inc, frag_turn := in_turn inc,
                            salience := clamp 0 1.2 (max (salience f) (in_salience inc) + 0.08) \<rparr>
                   else f) frags"
  using assms
proof (induction frags)
  case Nil
  show ?case by simp
next
  case (Cons f fs)
  show ?case
  proof (cases "key f = in_key inc")
    case True
    then have "\<forall>g \<in> set fs. key g \<noteq> in_key inc"
      using Cons.prems by force
    then have "map (\<lambda>f. if key f = in_key inc
                   then f \<lparr> frag_text := in_text inc, frag_dim := in_dim inc,
                            frag_focus := in_focus inc, frag_turn := in_turn inc,
                            salience := clamp 0 1.2 (max (salience f) (in_salience inc) + 0.08) \<rparr>
                   else f) fs = fs"
      by (simp add: map_idI)
    then show ?thesis using True by simp
  next
    case False
    then show ?thesis using Cons by simp
  qed
qed

lemma find_existing:
  assumes "distinct (map key frags)" and "old \<in> set frags" and "key old = k"
  shows "find (\<lambda>f. key f = k) frags = Some old"
  using assms
proof (induction frags)
  case Nil
  then show ?case by simp
next
  case (Cons f fs)
  show ?case
  proof (cases "f = old")
    case True
    then show ?thesis using Cons.prems by simp
  next
    case False
    then have "old \<in> set fs" using Cons.prems by simp
    then have "key f \<noteq> key old" using Cons.prems(1) by force
    then show ?thesis using Cons \<open>old \<in> set fs\<close> by simp
  qed
qed

lemma merged_salience_ge:
  assumes "a \<le> 1.2" and "b \<le> 1.2"
  shows "max a b \<le> clamp 0 1.2 (max a b + 0.08)"
  using assms by (auto simp add: clamp_def max_def min_def)

text \<open>
  Claim C7. For every fragment list whose keys are pairwise distinct and whose saliences
  lie in \<open>[0,1.2]\<close>, and every incoming fragment whose key is the key of a fragment
  \<open>old\<close> of the list, \<^verbatim>\<open>upsertFragment\<close> merges: it reports \<open>merged\<close> with the id of
  \<open>old\<close>, the list keeps its keys in their places (so no key occurs twice), only the
  fragment with that key changes, and its salience becomes
  \<open>clamp(0, 1.2, max(old, new) + 0.08)\<close>, which is at least the maximum of the existing
  and incoming saliences. The incoming salience is a salience too: it is at most 1.2,
  the range \<^verbatim>\<open>lib/types.ts\<close> documents for the field and the only one \<^verbatim>\<open>POST\<close> passes,
  \<open>clamp(0, 1.2, 0.25 + 0.55 * state + dimBonus)\<close>.
\<close>

theorem upsertFragment_merges_existing_key:
  assumes "distinct (map key frags)"
    and "\<forall>f \<in> set frags. 0 \<le> salience f \<and> salience f \<le> 1.2"
    and "old \<in> set frags" and "key old = in_key inc"
    and "in_salience inc \<le> 1.2"
  shows "upsertFragment frags inc fresh_id
       = (map (\<lambda>f. if key f = in_key inc
                    then f \<lparr> frag_text := in_text inc, frag_dim := in_dim inc,
                             frag_focus := in_focus inc, frag_turn := in_turn inc,
                             salience := clamp 0 1.2 (max (salience f) (in_salience inc) + 0.08) \<rparr>
                    else f) frags,
          False, True, frag_id old)
     \<and> map key (fst (upsertFragment frags inc fresh_id)) = map key frags
     \<and> distinct (map key (fst (upsertFragment frags inc fresh_id)))
     \<and> max (salience old) (in_salience inc)
           \<le> clamp 0 1.2 (max (salience old) (in_salience inc) + 0.08)"
proof -
  have f: "find (\<lambda>f. key f = in_key inc) frags = Some old"
    using assms(1,3,4) by (rule find_existing)
  have u: "upsertFragment frags inc fresh_id = (mergeInto frags inc, False, True, frag_id old)"
    by (simp add: upsertFragment_def f)
  have k: "map key (fst (upsertFragment frags inc fresh_id)) = map key frags"
    by (simp add: u mergeInto_keys)
  have "salience old \<le> 1.2" using assms(2,3) by blast
  then have s: "max (salience old) (in_salience inc)
           \<le> clamp 0 1.2 (max (salience old) (in_salience inc) + 0.08)"
    using assms(5) by (rule merged_salience_ge)
  have d: "distinct (map key (fst (upsertFragment frags inc fresh_id)))"
    unfolding k by (rule assms(1))
  have m: "upsertFragment frags inc fresh_id
       = (map (\<lambda>f. if key f = in_key inc
                    then f \<lparr> frag_text := in_text inc, frag_dim := in_dim inc,
                             frag_focus := in_focus inc, frag_turn := in_turn inc,
                             salience := clamp 0 1.2 (max (salience f) (in_salience inc) + 0.08) \<rparr>
                    else f) frags,
          False, True, frag_id old)"
    unfolding u mergeInto_map [OF assms(1), of inc] ..
  from m k d s show ?thesis by (intro conjI)
qed

text \<open>
  The incoming salience of the call site for state 0.8 and the bonus 0.22 of RISK, which
  is 0.91, merged into a fragment of salience 0.5: the merged salience is 0.99.
\<close>

theorem upsertFragment_merges_existing_key_witness:
  "upsertFragment
      [\<lparr> frag_id = ''f_1_a3c9e1'', key = ''RISK|plan|'', frag_turn = 1, frag_dim = Some ''RISK'',
          frag_focus = Some ''plan'', frag_text = ''(RISK) plan'', salience = 0.5,
          last_used_turn = - 999 \<rparr>]
      \<lparr> in_key = ''RISK|plan|'', in_turn = 2, in_dim = Some ''RISK'', in_focus = Some ''plan'',
        in_text = ''(RISK) plan now'',
        in_salience = clamp 0 1.2 (0.25 + 0.55 * 0.8 + 0.22) \<rparr> ''f_2_0b77d2''
   = ([\<lparr> frag_id = ''f_1_a3c9e1'', key = ''RISK|plan|'', frag_turn = 2, frag_dim = Some ''RISK'',
          frag_focus = Some ''plan'', frag_text = ''(RISK) plan now'', salience = 0.99,
          last_used_turn = - 999 \<rparr>], False, True, ''f_1_a3c9e1'')"
  using upsertFragment_merges_existing_key
    [of "[\<lparr> frag_id = ''f_1_a3c9e1'', key = ''RISK|plan|'', frag_turn = 1, frag_dim = Some ''RISK'',
          frag_focus = Some ''plan'', frag_text = ''(RISK) plan'', salience = 0.5,
          last_used_turn = - 999 \<rparr>]"
        "\<lparr> frag_id = ''f_1_a3c9e1'', key = ''RISK|plan|'', frag_turn = 1, frag_dim = Some ''RISK'',
          frag_focus = Some ''plan'', frag_text = ''(RISK) plan'', salience = 0.5,
          last_used_turn = - 999 \<rparr>"
        "\<lparr> in_key = ''RISK|plan|'', in_turn = 2, in_dim = Some ''RISK'', in_focus = Some ''plan'',
        in_text = ''(RISK) plan now'',
        in_salience = clamp 0 1.2 (0.25 + 0.55 * 0.8 + 0.22) \<rparr>" "''f_2_0b77d2''"]
  by (simp add: clamp_def)

section \<open>Fragment pruning\<close>

text \<open>
  Claim C8. For every fragment list and every current turn, the list that
  \<^verbatim>\<open>pruneFragments\<close> leaves with the cap 40 has at most 40 fragments, and none of them
  has both a salience below 0.06 and an age (current turn minus fragment turn) above 8.
\<close>

theorem pruneFragments_cap_and_stale:
  "length (pruneFragments frags turn 40) \<le> 40
   \<and> (\<forall>f \<in> set (pruneFragments frags turn 40). \<not> (salience f < 0.06 \<and> turn - frag_turn f > 8))"
proof -
  have "set (pruneFragments frags turn 40)
      \<subseteq> set (filter (\<lambda>f. \<not> (salience f < 0.06 \<and> turn - frag_turn f > 8)) frags)"
    using set_take_subset [of 40 "sort_key (\<lambda>f. - salience f)
        (filter (\<lambda>f. \<not> (salience f < 0.06 \<and> turn - frag_turn f > 8)) frags)"]
    by (simp add: pruneFragments_def Let_def)
  then show ?thesis
    by (auto simp add: pruneFragments_def Let_def)
qed

theorem pruneFragments_cap_and_stale_witness:
  "\<lparr> frag_id = ''f_1_a3c9e1'', key = ''META|old|'', frag_turn = 1, frag_dim = Some ''META'',
      frag_focus = Some ''old'', frag_text = ''(META) old'', salience = 0.05,
      last_used_turn = - 999 \<rparr>
    \<notin> set (pruneFragments
      [\<lparr> frag_id = ''f_1_a3c9e1'', key = ''META|old|'', frag_turn = 1, frag_dim = Some ''META'',
          frag_focus = Some ''old'', frag_text = ''(META) old'', salience = 0.05,
          last_used_turn = - 999 \<rparr>,
       \<lparr> frag_id = ''f_9_0b77d2'', key = ''GOAL|plan|'', frag_turn = 9, frag_dim = Some ''GOAL'',
          frag_focus = Some ''plan'', frag_text = ''(GOAL) plan'', salience = 0.5,
          last_used_turn = - 999 \<rparr>] 10 40)
   \<and> length (pruneFragments
      [\<lparr> frag_id = ''f_1_a3c9e1'', key = ''META|old|'', frag_turn = 1, frag_dim = Some ''META'',
          frag_focus = Some ''old'', frag_text = ''(META) old'', salience = 0.05,
          last_used_turn = - 999 \<rparr>,
       \<lparr> frag_id = ''f_9_0b77d2'', key = ''GOAL|plan|'', frag_turn = 9, frag_dim = Some ''GOAL'',
          frag_focus = Some ''plan'', frag_text = ''(GOAL) plan'', salience = 0.5,
          last_used_turn = - 999 \<rparr>] 10 40) \<le> 40"
  using pruneFragments_cap_and_stale
    [of "[\<lparr> frag_id = ''f_1_a3c9e1'', key = ''META|old|'', frag_turn = 1, frag_dim = Some ''META'',
          frag_focus = Some ''old'', frag_text = ''(META) old'', salience = 0.05,
          last_used_turn = - 999 \<rparr>,
       \<lparr> frag_id = ''f_9_0b77d2'', key = ''GOAL|plan|'', frag_turn = 9, frag_dim = Some ''GOAL'',
          frag_focus = Some ''plan'', frag_text = ''(GOAL) plan'', salience = 0.5,
          last_used_turn = - 999 \<rparr>]" 10]
  by force

section \<open>Entropy estimator\<close>

lemma foldl_plus_sum_list: "foldl (+) a xs = a + sum_list xs" for a :: real
  by (induction xs arbitrary: a) simp_all

lemma foldl_entropy_terms:
  assumes "\<forall>p \<in> set ps. 0 < p"
  shows "foldl (\<lambda>Hacc p. if p > 0 then Hacc - p * ln (p + EPS) else Hacc) a ps
       = a - sum_list (map (\<lambda>p. p * ln (p + EPS)) ps)"
  using assms by (induction ps arbitrary: a) simp_all

lemma tokenEntropy_formula:
  "tokenEntropy tops
     = - sum_list (map (\<lambda>x. exp (logprob x) * ln (exp (logprob x) + EPS)) tops)
       - max 0 (1 - sum_list (map (\<lambda>x. exp (logprob x)) tops))
         * ln (max 0 (1 - sum_list (map (\<lambda>x. exp (logprob x)) tops)) + EPS)"
proof -
  have pos: "\<forall>p \<in> set (map (\<lambda>x. exp (logprob x)) tops). 0 < p" by simp
  show ?thesis
    unfolding tokenEntropy_def Let_def foldl_entropy_terms [OF pos] foldl_plus_sum_list
    by (simp add: comp_def max_def)
qed

lemma entropyLoop_filter:
  "entropyLoop tokens Hs
     = Hs @ map (\<lambda>t. tokenEntropy (the (top_logprobs t))) (filter carries_alternatives tokens)"
  by (induction tokens arbitrary: Hs) (simp_all add: carries_alternatives_def split: option.splits)

lemma approxEntropy_average:
  "approxEntropy tokens
     = (if filter carries_alternatives tokens = [] then None
        else Some (sum_list (map (\<lambda>t. tokenEntropy (the (top_logprobs t)))
                                (filter carries_alternatives tokens))
                   / real (length (filter carries_alternatives tokens))))"
  by (simp add: approxEntropy_def entropyLoop_filter foldl_plus_sum_list Let_def)


lemma certain_token_entropy:
  "approxEntropy [\<lparr> token = ''DIM'', logprob = 0,
                     top_logprobs = Some [\<lparr> token = ''DIM'', logprob = 0 \<rparr>] \<rparr>]
     = Some (- ln (1 + EPS))"
  by (simp add: approxEntropy_average carries_alternatives_def tokenEntropy_formula)

lemma certain_token_entropy_spec:
  "entropy_spec [\<lparr> token = ''DIM'', logprob = 0,
                    top_logprobs = Some [\<lparr> token = ''DIM'', logprob = 0 \<rparr>] \<rparr>]
     = Some 0"
  by (simp add: entropy_spec_def carries_alternatives_def entropy_term_spec_def)

text \<open>
  Claim C9 as stated fails on the formula of \<open>H\<close>: the code takes the logarithm of
  \<open>p + 1e-8\<close> and of \<open>r + 1e-8\<close>. For one token whose only alternative has probability 1
  the code returns \<open>- ln (1 + 1e-8)\<close>, which is negative, where the stated formula gives 0.
\<close>

theorem approxEntropy_formula_counterexample:
  "approxEntropy [\<lparr> token = ''DIM'', logprob = 0,
                     top_logprobs = Some [\<lparr> token = ''DIM'', logprob = 0 \<rparr>] \<rparr>]
     = Some (- ln (1 + EPS))
   \<and> entropy_spec [\<lparr> token = ''DIM'', logprob = 0,
                     top_logprobs = Some [\<lparr> token = ''DIM'', logprob = 0 \<rparr>] \<rparr>]
     = Some 0
   \<and> approxEntropy [\<lparr> token = ''DIM'', logprob = 0,
                     top_logprobs = Some [\<lparr> token = ''DIM'', logprob = 0 \<rparr>] \<rparr>]
     \<noteq> entropy_spec [\<lparr> token = ''DIM'', logprob = 0,
                     top_logprobs = Some [\<lparr> token = ''DIM'', logprob = 0 \<rparr>] \<rparr>]"
proof -
  have "0 < ln (1 + EPS)" by (simp add: EPS_def)
  then show ?thesis
    unfolding certain_token_entropy certain_token_entropy_spec by simp
qed

text \<open>
  Claim C9, amended. For every token slice the entropy estimator returns null exactly
  when no token of the slice carries top-k alternatives; otherwise it returns the
  average, over the tokens that carry alternatives, of
  \<open>H = - \<Sum> p\<^sub>i ln (p\<^sub>i + 1e-8) - r ln (r + 1e-8)\<close>, where \<open>p\<^sub>i = exp logprob\<^sub>i\<close> and
  \<open>r = max 0 (1 - \<Sum> p\<^sub>i)\<close>.
\<close>

theorem approxEntropy_average_of_smoothed_entropy:
  "(approxEntropy tokens = None \<longleftrightarrow> (\<forall>t \<in> set tokens. \<not> carries_alternatives t))
   \<and> approxEntropy tokens
     = (if filter carries_alternatives tokens = [] then None
        else Some (sum_list (map (\<lambda>t.
                      - sum_list (map (\<lambda>x. exp (logprob x) * ln (exp (logprob x) + 1 / 10 ^ 8))
                                      (the (top_logprobs t)))
                      - max 0 (1 - sum_list (map (\<lambda>x. exp (logprob x)) (the (top_logprobs t))))
                        * ln (max 0 (1 - sum_list (map (\<lambda>x. exp (logprob x)) (the (top_logprobs t))))
                              + 1 / 10 ^ 8))
                    (filter carries_alternatives tokens))
                   / real (length (filter carries_alternatives tokens))))"
proof -
  have a: "approxEntropy tokens = None \<longleftrightarrow> (\<forall>t \<in> set tokens. \<not> carries_alternatives t)"
    by (simp add: approxEntropy_average filter_empty_conv)
  have b: "approxEntropy tokens
     = (if filter carries_alternatives tokens = [] then None
        else Some (sum_list (map (\<lambda>t.
                      - sum_list (map (\<lambda>x. exp (logprob x) * ln (exp (logprob x) + 1 / 10 ^ 8))
                                      (the (top_logprobs t)))
                      - max 0 (1 - sum_list (map (\<lambda>x. exp (logprob x)) (the (top_logprobs t))))
                        * ln (max 0 (1 - sum_list (map (\<lambda>x. exp (logprob x)) (the (top_logprobs t))))
                              + 1 / 10 ^ 8))
                    (filter carries_alternatives tokens))
                   / real (length (filter carries_alternatives tokens))))"
    unfolding approxEntropy_average tokenEntropy_formula EPS_def ..
  from a b show ?thesis by (rule conjI)
qed

theorem approxEntropy_witness:
  "approxEntropy [\<lparr> token = ''DIM'', logprob = - 1, top_logprobs = None \<rparr>,
                  \<lparr> token = '':'', logprob = - 2, top_logprobs = Some [] \<rparr>] = None
   \<and> approxEntropy [\<lparr> token = ''DIM'', logprob = 0,
                     top_logprobs = Some [\<lparr> token = ''DIM'', logprob = 0 \<rparr>] \<rparr>,
                    \<lparr> token = '':'', logprob = - 2, top_logprobs = None \<rparr>]
     = Some (- ln (1 + 1 / 10 ^ 8))"
  using approxEntropy_average_of_smoothed_entropy
      [of "[\<lparr> token = ''DIM'', logprob = - 1, top_logprobs = None \<rparr>,
            \<lparr> token = '':'', logprob = - 2, top_logprobs = Some [] \<rparr>]"]
    approxEntropy_average_of_smoothed_entropy
      [of "[\<lparr> token = ''DIM'', logprob = 0,
                     top_logprobs = Some [\<lparr> token = ''DIM'', logprob = 0 \<rparr>] \<rparr>,
                    \<lparr> token = '':'', logprob = - 2, top_logprobs = None \<rparr>]"]
  by (simp add: carries_alternatives_def)

section \<open>Stagnation buffers\<close>

lemma updateStagnationBuffers_fields:
  "last_dims (updateStagnationBuffers gs d f st 12)
     = slice_last 12 (if truthy d then last_dims gs @ [the d] else last_dims gs)"
  "last_focus (updateStagnationBuffers gs d f st 12)
     = slice_last 12 (if truthy f then last_focus gs @ [the f] else last_focus gs)"
  "last_states (updateStagnationBuffers gs d f st 12) = slice_last 12 (last_states gs @ [st])"
  by (simp_all add: updateStagnationBuffers_def Let_def shiftWhile_drop slice_last_def)

lemma slice_last_length: "0 < n \<Longrightarrow> length (slice_last n xs) \<le> n"
  by (simp add: slice_last_def)

lemma stagnation_example:
  "foldl (\<lambda>g (d, f, st). updateStagnationBuffers g d f st 12) createInitialGateState
     [(Some ''RISK'', None, 0.01), (Some ''NOVELTY'', None, 0.02), (Some ''GOAL'', None, 0.03),
      (Some ''UNCERTAINTY'', None, 0.04), (Some ''OPPORTUNITY'', None, 0.05), (Some ''META'', None, 0.06),
      (Some ''RISK_B'', None, 0.07), (Some ''NOVELTY_B'', None, 0.08), (Some ''GOAL_B'', None, 0.09),
      (Some ''UNCERTAINTY_B'', None, 0.10), (Some ''OPPORTUNITY_B'', None, 0.11), (None, None, 0.12),
      (Some ''RISK_C'', None, 0.13)]
   = createInitialGateState
       \<lparr> last_dims := [''RISK'', ''NOVELTY'', ''GOAL'', ''UNCERTAINTY'', ''OPPORTUNITY'', ''META'', ''RISK_B'', ''NOVELTY_B'', ''GOAL_B'', ''UNCERTAINTY_B'', ''OPPORTUNITY_B'', ''RISK_C''],
         last_states := [0.02, 0.03, 0.04, 0.05, 0.06, 0.07, 0.08, 0.09, 0.10, 0.11, 0.12, 0.13] \<rparr>"
  by (simp add: updateStagnationBuffers_def Let_def shiftWhile_drop truthy_def createInitialGateState_def)


lemma stagnation_lengths_differ:
  "length (last_dims (updateStagnationBuffers createInitialGateState None None 0.3 12))
     \<noteq> length (last_states (updateStagnationBuffers createInitialGateState None None 0.3 12))"
  by (simp add: updateStagnationBuffers_fields slice_last_def truthy_def createInitialGateState_def)

lemma truthy_cases:
  "(if truthy d then xs @ [the d] else xs)
     = (case d of None \<Rightarrow> xs | Some x \<Rightarrow> if x = [] then xs else xs @ [x])"
  by (simp add: truthy_def split: option.splits)

text \<open>
  Claim C10. Every call of \<^verbatim>\<open>updateStagnationBuffers\<close> (capacity 12) leaves each of the
  three buffers with at most 12 entries. The new state is always appended; a dimension
  or focus is appended only when it is non-null (and, being tested for truthiness, not
  the empty string); each buffer then keeps its last 12 entries. So the buffers can
  differ in length: after one call with a null dimension on a new gate state
  \<open>last_dims\<close> is empty and \<open>last_states\<close> is not. And their entries need not come from the
  same turns: after 13 calls, the 12th with a null dimension, \<open>last_dims\<close> still holds
  the label of the first call, so its last 12 labels span 13 turns and its last 8 labels
  (those of calls 5 to 11 and of call 13) span 9 turns, while \<open>last_states\<close> holds the
  states of calls 2 to 13.
\<close>

theorem updateStagnationBuffers_bounded_and_unaligned:
  "length (last_dims (updateStagnationBuffers gs d f st 12)) \<le> 12
   \<and> length (last_focus (updateStagnationBuffers gs d f st 12)) \<le> 12
   \<and> length (last_states (updateStagnationBuffers gs d f st 12)) \<le> 12
   \<and> last_states (updateStagnationBuffers gs d f st 12) = slice_last 12 (last_states gs @ [st])
   \<and> last_dims (updateStagnationBuffers gs d f st 12)
       = slice_last 12 (case d of None \<Rightarrow> last_dims gs
                        | Some x \<Rightarrow> if x = [] then last_dims gs else last_dims gs @ [x])
   \<and> last_focus (updateStagnationBuffers gs d f st 12)
       = slice_last 12 (case f of None \<Rightarrow> last_focus gs
                        | Some x \<Rightarrow> if x = [] then last_focus gs else last_focus gs @ [x])
   \<and> length (last_dims (updateStagnationBuffers createInitialGateState None None 0.3 12))
       \<noteq> length (last_states (updateStagnationBuffers createInitialGateState None None 0.3 12))
   \<and> foldl (\<lambda>g (d, f, st). updateStagnationBuffers g d f st 12) createInitialGateState
        [(Some ''RISK'', None, 0.01), (Some ''NOVELTY'', None, 0.02), (Some ''GOAL'', None, 0.03),
         (Some ''UNCERTAINTY'', None, 0.04), (Some ''OPPORTUNITY'', None, 0.05), (Some ''META'', None, 0.06),
         (Some ''RISK_B'', None, 0.07), (Some ''NOVELTY_B'', None, 0.08), (Some ''GOAL_B'', None, 0.09),
         (Some ''UNCERTAINTY_B'', None, 0.10), (Some ''OPPORTUNITY_B'', None, 0.11), (None, None, 0.12),
         (Some ''RISK_C'', None, 0.13)]
       = createInitialGateState
           \<lparr> last_dims := [''RISK'', ''NOVELTY'', ''GOAL'', ''UNCERTAINTY'', ''OPPORTUNITY'', ''META'', ''RISK_B'', ''NOVELTY_B'', ''GOAL_B'', ''UNCERTAINTY_B'', ''OPPORTUNITY_B'', ''RISK_C''],
             last_states := [0.02, 0.03, 0.04, 0.05, 0.06, 0.07, 0.08, 0.09, 0.10, 0.11, 0.12, 0.13] \<rparr>"
proof -
  note f = updateStagnationBuffers_fields [of gs d f st]
  have l: "length (last_dims (updateStagnationBuffers gs d f st 12)) \<le> 12"
    "length (last_focus (updateStagnationBuffers gs d f st 12)) \<le> 12"
    "length (last_states (updateStagnationBuffers gs d f st 12)) \<le> 12"
    unfolding f by (rule slice_last_length, simp)+
  have d: "last_dims (updateStagnationBuffers gs d f st 12)
       = slice_last 12 (case d of None \<Rightarrow> last_dims gs
                        | Some x \<Rightarrow> if x = [] then last_dims gs else last_dims gs @ [x])"
    unfolding f truthy_cases ..
  have fo: "last_focus (updateStagnationBuffers gs d f st 12)
       = slice_last 12 (case f of None \<Rightarrow> last_focus gs
                        | Some x \<Rightarrow> if x = [] then last_focus gs else last_focus gs @ [x])"
    unfolding f truthy_cases ..
  from l f(3) d fo stagnation_lengths_differ stagnation_example show ?thesis
    by (intro conjI)
qed

theorem updateStagnationBuffers_witness:
  "last_dims (updateStagnationBuffers
      (createInitialGateState \<lparr> last_dims := [''RISK'', ''NOVELTY'', ''GOAL'', ''UNCERTAINTY'', ''OPPORTUNITY'', ''META'', ''RISK_B'', ''NOVELTY_B'', ''GOAL_B'', ''UNCERTAINTY_B'', ''OPPORTUNITY_B'', ''META_B''] \<rparr>)
      (Some ''RISK_C'') (Some []) 0.3 12)
     = [''NOVELTY'', ''GOAL'', ''UNCERTAINTY'', ''OPPORTUNITY'', ''META'', ''RISK_B'', ''NOVELTY_B'', ''GOAL_B'', ''UNCERTAINTY_B'', ''OPPORTUNITY_B'', ''META_B'', ''RISK_C'']
   \<and> last_focus (updateStagnationBuffers
      (createInitialGateState \<lparr> last_dims := [''RISK'', ''NOVELTY'', ''GOAL'', ''UNCERTAINTY'', ''OPPORTUNITY'', ''META'', ''RISK_B'', ''NOVELTY_B'', ''GOAL_B'', ''UNCERTAINTY_B'', ''OPPORTUNITY_B'', ''META_B''] \<rparr>)
      (Some ''RISK_C'') (Some []) 0.3 12) = []
   \<and> last_states (updateStagnationBuffers
      (createInitialGateState \<lparr> last_dims := [''RISK'', ''NOVELTY'', ''GOAL'', ''UNCERTAINTY'', ''OPPORTUNITY'', ''META'', ''RISK_B'', ''NOVELTY_B'', ''GOAL_B'', ''UNCERTAINTY_B'', ''OPPORTUNITY_B'', ''META_B''] \<rparr>)
      (Some ''RISK_C'') (Some []) 0.3 12) = [0.3]"
  using updateStagnationBuffers_bounded_and_unaligned
    [of "createInitialGateState \<lparr> last_dims := [''RISK'', ''NOVELTY'', ''GOAL'', ''UNCERTAINTY'', ''OPPORTUNITY'', ''META'', ''RISK_B'', ''NOVELTY_B'', ''GOAL_B'', ''UNCERTAINTY_B'', ''OPPORTUNITY_B'', ''META_B''] \<rparr>"
        "Some ''RISK_C''" "Some []" "0.3"]
  by (simp add: slice_last_def createInitialGateState_def)

end
